theory Spec2Isabelle
  imports Main "HOL-Library.AList"
begin

section \<open>The syntax tree\<close>

text \<open>
  The transformer of \<^verbatim>\<open>src/RestrictedPython/transformer.py\<close> works on the trees of
  Python's \<^verbatim>\<open>ast\<close> module. Such a tree is dynamically typed: a node is an object of
  some class (its kind), it has the fields of that class as attributes, and a field
  holds a node, a list, a string, a number or \<^verbatim>\<open>None\<close>. The handlers read fields by
  name (\<^verbatim>\<open>node.value\<close>), test kinds with \<^verbatim>\<open>isinstance\<close>, and the dispatcher builds
  the handler's name from the name of the class. The model keeps all of that:
  a node is its class name, its fields in the order of the class's \<^verbatim>\<open>_fields\<close>
  (an attribute that was deleted is absent from the list), and its \<^verbatim>\<open>lineno\<close>
  (\<open>None\<close> when the node has no such attribute). \<^verbatim>\<open>col_offset\<close> is written wherever
  \<^verbatim>\<open>lineno\<close> is and never read by the transformer; it is left out.
\<close>

datatype val = VNode node | VList "val list" | VStr string | VInt int | VBool bool | VNone
and node = Node (cls: string) (flds: "(string \<times> val) list") (lineno: "nat option")

text \<open>The exceptions of Python that the transformer can run into or raises itself.\<close>

datatype exn = AttributeError | KeyError | TypeError | AssertionError | PyException string

text \<open>
  The version switches of \<^verbatim>\<open>RestrictedPython._compat\<close>. That module is not part of
  the sources at hand, so the four switches are a parameter of the model.
\<close>

record compat =
  IS_PY2 :: bool
  IS_PY3 :: bool
  IS_PY34_OR_GREATER :: bool
  IS_PY35_OR_GREATER :: bool

text \<open>
  The state of a \<^verbatim>\<open>RestrictingNodeTransformer\<close>: the two diagnostic lists, the
  dictionary \<^verbatim>\<open>used_names\<close> (keys in insertion order), the counter \<^verbatim>\<open>_tmp_idx\<close> and
  the two flags of \<^verbatim>\<open>print_info\<close>.
\<close>

record state =
  errors :: "string list"
  warnings :: "string list"
  used_names :: "(val \<times> bool) list"
  tmp_idx :: nat
  print_used :: bool
  printed_used :: bool

definition init_state :: state where
  "init_state = \<lparr>errors = [], warnings = [], used_names = [], tmp_idx = 0,
     print_used = False, printed_used = False\<rparr>"

subsection \<open>Computations that change the state or raise\<close>

type_synonym 'a comp = "state \<Rightarrow> exn + ('a \<times> state)"

definition returnM :: "'a \<Rightarrow> 'a comp" where
  "returnM x = (\<lambda>st. Inr (x, st))"

definition raiseM :: "exn \<Rightarrow> 'a comp" where
  "raiseM e = (\<lambda>st. Inl e)"

definition bindM :: "'a comp \<Rightarrow> ('a \<Rightarrow> 'b comp) \<Rightarrow> 'b comp" where
  "bindM m f = (\<lambda>st. case m st of Inl e \<Rightarrow> Inl e | Inr (x, st') \<Rightarrow> f x st')"

definition liftE :: "exn + 'a \<Rightarrow> 'a comp" where
  "liftE r = (\<lambda>st. case r of Inl e \<Rightarrow> Inl e | Inr x \<Rightarrow> Inr (x, st))"

definition modifyM :: "(state \<Rightarrow> state) \<Rightarrow> unit comp" where
  "modifyM f = (\<lambda>st. Inr ((), f st))"

definition whenM :: "bool \<Rightarrow> unit comp \<Rightarrow> unit comp" where
  "whenM b m = (if b then m else returnM ())"

text \<open>A \<^verbatim>\<open>for\<close> loop whose body changes the state: the elements in order.\<close>

fun forM :: "'a list \<Rightarrow> ('a \<Rightarrow> unit comp) \<Rightarrow> unit comp" where
  "forM [] body = returnM ()"
| "forM (x # xs) body = bindM (body x) (\<lambda>_. forM xs body)"

subsection \<open>Reading and writing attributes\<close>

definition getattr :: "node \<Rightarrow> string \<Rightarrow> exn + val" where
  "getattr node f = (case map_of (flds node) f of None \<Rightarrow> Inl AttributeError | Some v \<Rightarrow> Inr v)"

text \<open>Reading an attribute of a value that may not be a node (\<^verbatim>\<open>node.func.id\<close>).\<close>

definition vgetattr :: "val \<Rightarrow> string \<Rightarrow> exn + val" where
  "vgetattr v f = (case v of VNode n \<Rightarrow> getattr n f | _ \<Rightarrow> Inl AttributeError)"

definition setattr :: "node \<Rightarrow> string \<Rightarrow> val \<Rightarrow> node" where
  "setattr node f v = Node (cls node) (AList.update f v (flds node)) (lineno node)"

definition isinstance :: "val \<Rightarrow> string \<Rightarrow> bool" where
  "isinstance v k = (case v of VNode n \<Rightarrow> cls n = k | _ \<Rightarrow> False)"

text \<open>Iterating over a value: only a list can be iterated here.\<close>

definition as_list :: "val \<Rightarrow> exn + val list" where
  "as_list v = (case v of VList xs \<Rightarrow> Inr xs | _ \<Rightarrow> Inl TypeError)"

text \<open>
  Python's truth value of a field, as in \<^verbatim>\<open>if slice_.lower:\<close>: a node is true,
  \<^verbatim>\<open>None\<close>, an empty string, an empty list and zero are false.
\<close>

definition truthy :: "val \<Rightarrow> bool" where
  "truthy v = (case v of VNode _ \<Rightarrow> True | VList xs \<Rightarrow> xs \<noteq> [] | VStr s \<Rightarrow> s \<noteq> []
     | VInt i \<Rightarrow> i \<noteq> 0 | VBool b \<Rightarrow> b | VNone \<Rightarrow> False)"

subsection \<open>Strings\<close>

definition startswith :: "string \<Rightarrow> string \<Rightarrow> bool" where
  "startswith s p = (take (length p) s = p)"

definition endswith :: "string \<Rightarrow> string \<Rightarrow> bool" where
  "endswith s p = (length p \<le> length s \<and> drop (length s - length p) s = p)"

text \<open>A number in decimal, as \<^verbatim>\<open>str.format\<close> and \<^verbatim>\<open>%i\<close> print it.\<close>

definition digit :: "nat \<Rightarrow> char" where
  "digit d = ''0123456789'' ! d"

function str_nat :: "nat \<Rightarrow> string" where
  "str_nat n = (if n < 10 then [digit n] else str_nat (n div 10) @ [digit (n mod 10)])"
  by pat_completeness auto
termination
  by (relation "measure id") auto

declare str_nat.simps [simp del]

definition str_int :: "int \<Rightarrow> string" where
  "str_int i = (if i < 0 then CHR ''-'' # str_nat (nat (- i)) else str_nat (nat i))"

section \<open>The diagnostics sink\<close>

text \<open>
  \<^verbatim>\<open>error(node, info)\<close> and \<^verbatim>\<open>warn(node, info)\<close> append
  \<^verbatim>\<open>'Line {lineno}: {info}'\<close> to the list, where \<^verbatim>\<open>lineno\<close> is
  \<^verbatim>\<open>getattr(node, 'lineno', None)\<close>.
\<close>

definition fmt_lineno :: "nat option \<Rightarrow> string" where
  "fmt_lineno l = (case l of None \<Rightarrow> ''None'' | Some n \<Rightarrow> str_nat n)"

definition line_info :: "node \<Rightarrow> string \<Rightarrow> string" where
  "line_info node info = ''Line '' @ fmt_lineno (lineno node) @ '': '' @ info"

definition error :: "node \<Rightarrow> string \<Rightarrow> state \<Rightarrow> state" where
  "error node info st = st\<lparr>errors := errors st @ [line_info node info]\<rparr>"

definition warn :: "node \<Rightarrow> string \<Rightarrow> state \<Rightarrow> state" where
  "warn node info st = st\<lparr>warnings := warnings st @ [line_info node info]\<rparr>"

section \<open>The name policy\<close>

text \<open>
  \<^verbatim>\<open>check_name(node, name)\<close>: nothing for \<^verbatim>\<open>None\<close>; otherwise the chain of
  \<^verbatim>\<open>if\<close>/\<^verbatim>\<open>elif\<close> of the source, in its order. A name that is no string has no
  \<^verbatim>\<open>startswith\<close>.
\<close>

definition check_name :: "node \<Rightarrow> val \<Rightarrow> unit comp" where
  "check_name node name =
     (case name of
        VNone \<Rightarrow> returnM ()
      | VStr s \<Rightarrow>
          (if startswith s ''_'' \<and> s \<noteq> ''_'' then
             modifyM (error node
               (''\"'' @ s @ ''\" is an invalid variable name because it starts with \"_\"''))
           else if endswith s ''__roles__'' then
             modifyM (error node
               (''\"'' @ s @ ''\" is an invalid variable name because it ends with \"__roles__\".''))
           else if s = ''printed'' then
             modifyM (error node ''\"printed\" is a reserved name.'')
           else if s = ''print'' then
             modifyM (error node ''\"print\" is a reserved name.'')
           else returnM ())
      | _ \<Rightarrow> raiseM AttributeError)"

section \<open>Building nodes\<close>

text \<open>
  The constructors of \<^verbatim>\<open>ast\<close> that the transformer calls. A new node has the fields
  it was given and no \<^verbatim>\<open>lineno\<close> yet.
\<close>

definition mk_ctx :: "string \<Rightarrow> node" where
  "mk_ctx k = Node k [] None"

definition mk_Name :: "val \<Rightarrow> string \<Rightarrow> node" where
  "mk_Name ident ctx = Node ''Name'' [(''id'', ident), (''ctx'', VNode (mk_ctx ctx))] None"

definition mk_Str :: "val \<Rightarrow> node" where
  "mk_Str s = Node ''Str'' [(''s'', s)] None"

definition mk_Num :: "int \<Rightarrow> node" where
  "mk_Num n = Node ''Num'' [(''n'', VInt n)] None"

definition mk_Tuple :: "val list \<Rightarrow> string \<Rightarrow> node" where
  "mk_Tuple elts ctx = Node ''Tuple'' [(''elts'', VList elts), (''ctx'', VNode (mk_ctx ctx))] None"

definition mk_Dict :: "val list \<Rightarrow> val list \<Rightarrow> node" where
  "mk_Dict keys vals = Node ''Dict'' [(''keys'', VList keys), (''values'', VList vals)] None"

definition mk_Call :: "val \<Rightarrow> val list \<Rightarrow> val list \<Rightarrow> node" where
  "mk_Call func args keywords =
     Node ''Call'' [(''func'', func), (''args'', VList args), (''keywords'', VList keywords)] None"

definition mk_Attribute :: "val \<Rightarrow> val \<Rightarrow> string \<Rightarrow> node" where
  "mk_Attribute v attr ctx =
     Node ''Attribute'' [(''value'', v), (''attr'', attr), (''ctx'', VNode (mk_ctx ctx))] None"

definition mk_Assign :: "val list \<Rightarrow> val \<Rightarrow> node" where
  "mk_Assign targets v = Node ''Assign'' [(''targets'', VList targets), (''value'', v)] None"

definition mk_Delete :: "val list \<Rightarrow> node" where
  "mk_Delete targets = Node ''Delete'' [(''targets'', VList targets)] None"

definition mk_BoolOp :: "node \<Rightarrow> val list \<Rightarrow> node" where
  "mk_BoolOp op vals = Node ''BoolOp'' [(''op'', VNode op), (''values'', VList vals)] None"

definition mk_Try :: "val list \<Rightarrow> val list \<Rightarrow> val list \<Rightarrow> val list \<Rightarrow> node" where
  "mk_Try body handlers orelse finalbody =
     Node ''Try'' [(''body'', VList body), (''handlers'', VList handlers),
       (''orelse'', VList orelse), (''finalbody'', VList finalbody)] None"

definition mk_TryFinally :: "val list \<Rightarrow> val list \<Rightarrow> node" where
  "mk_TryFinally body finalbody =
     Node ''TryFinally'' [(''body'', VList body), (''finalbody'', VList finalbody)] None"

definition mk_arguments :: "val list \<Rightarrow> val \<Rightarrow> val \<Rightarrow> val list \<Rightarrow> node" where
  "mk_arguments args vararg kwarg defaults =
     Node ''arguments'' [(''args'', VList args), (''vararg'', vararg), (''kwarg'', kwarg),
       (''defaults'', VList defaults)] None"

definition mk_Lambda :: "node \<Rightarrow> val \<Rightarrow> node" where
  "mk_Lambda args body = Node ''Lambda'' [(''args'', VNode args), (''body'', body)] None"

subsection \<open>Source positions\<close>

text \<open>
  Which classes carry \<^verbatim>\<open>lineno\<close> in their \<^verbatim>\<open>_attributes\<close> is fixed by Python's
  grammar: expressions, statements, exception handlers and \<^verbatim>\<open>arg\<close> do; modules,
  expression contexts, slices, operators, \<^verbatim>\<open>comprehension\<close>, \<^verbatim>\<open>arguments\<close>,
  \<^verbatim>\<open>keyword\<close>, \<^verbatim>\<open>alias\<close> and \<^verbatim>\<open>withitem\<close> do not.
\<close>

definition unlocated :: "string list" where
  "unlocated = [''Module'', ''Interactive'', ''Expression'', ''Suite'',
     ''Load'', ''Store'', ''Del'', ''AugLoad'', ''AugStore'', ''Param'',
     ''Slice'', ''ExtSlice'', ''Index'', ''And'', ''Or'',
     ''Add'', ''Sub'', ''Mult'', ''MatMult'', ''Div'', ''Mod'', ''Pow'', ''LShift'', ''RShift'',
     ''BitOr'', ''BitXor'', ''BitAnd'', ''FloorDiv'', ''Invert'', ''Not'', ''UAdd'', ''USub'',
     ''Eq'', ''NotEq'', ''Lt'', ''LtE'', ''Gt'', ''GtE'', ''Is'', ''IsNot'', ''In'', ''NotIn'',
     ''comprehension'', ''arguments'', ''keyword'', ''alias'', ''withitem'']"

definition has_lineno :: "string \<Rightarrow> bool" where
  "has_lineno k = (k \<notin> set unlocated)"

text \<open>
  \<^verbatim>\<open>ast.fix_missing_locations\<close> of the standard library: a node that can carry a line
  and has none gets the line of the nearest ancestor that has one (the line given for
  the root); the children are the nodes in the fields and in the lists of the fields.
\<close>

fun fix_node :: "nat \<Rightarrow> node \<Rightarrow> node"
and fix_fields :: "nat \<Rightarrow> (string \<times> val) list \<Rightarrow> (string \<times> val) list"
and fix_items :: "nat \<Rightarrow> val list \<Rightarrow> val list"
where
  "fix_node l (Node k fs p) =
     (if has_lineno k then
        (case p of None \<Rightarrow> Node k (fix_fields l fs) (Some l)
         | Some q \<Rightarrow> Node k (fix_fields q fs) (Some q))
      else Node k (fix_fields l fs) p)"
| "fix_fields l [] = []"
| "fix_fields l ((f, VNode n) # rest) = (f, VNode (fix_node l n)) # fix_fields l rest"
| "fix_fields l ((f, VList xs) # rest) = (f, VList (fix_items l xs)) # fix_fields l rest"
| "fix_fields l ((f, v) # rest) = (f, v) # fix_fields l rest"
| "fix_items l [] = []"
| "fix_items l (VNode n # rest) = VNode (fix_node l n) # fix_items l rest"
| "fix_items l (v # rest) = v # fix_items l rest"

definition fix_missing_locations :: "node \<Rightarrow> node" where
  "fix_missing_locations node = fix_node 1 node"

text \<open>
  \<^verbatim>\<open>copy_locations(new_node, old_node)\<close>: the assertion on the class of the new node,
  the read of \<^verbatim>\<open>old_node.lineno\<close> (which raises when the old value has no line), the
  write, and \<^verbatim>\<open>fix_missing_locations\<close>.
\<close>

definition copy_locations :: "node \<Rightarrow> val \<Rightarrow> exn + node" where
  "copy_locations new_node old_node =
     (if \<not> has_lineno (cls new_node) then Inl AssertionError
      else case old_node of
        VNode old \<Rightarrow>
          (case lineno old of
             None \<Rightarrow> Inl AttributeError
           | Some l \<Rightarrow> Inr (fix_missing_locations (Node (cls new_node) (flds new_node) (Some l))))
      | _ \<Rightarrow> Inl AttributeError)"

section \<open>Helpers of the transformer\<close>

definition gen_tmp_name :: "string comp" where
  "gen_tmp_name = (\<lambda>st. Inr (''_tmp'' @ str_nat (tmp_idx st), st\<lparr>tmp_idx := tmp_idx st + 1\<rparr>))"

definition is_starred :: "compat \<Rightarrow> val \<Rightarrow> bool" where
  "is_starred cfg ob = (if IS_PY3 cfg then isinstance ob ''Starred'' else False)"

lemma map_of_size_less:
  "map_of fs f = Some v \<Longrightarrow> size v < Suc (size_list (size_prod (\<lambda>_. 0) size) fs)"
  by (induction fs) (auto split: if_splits)

lemma getattr_size_less: "getattr n f = Inr v \<Longrightarrow> size v < size n"
  by (cases n) (auto simp: getattr_def split: option.splits dest: map_of_size_less)

lemma getattr_list_size_less:
  "getattr n f = Inr v \<Longrightarrow> as_list v = Inr xs \<Longrightarrow> size_list size xs < size n"
  by (cases v) (auto simp: as_list_def dest: getattr_size_less)

text \<open>
  \<^verbatim>\<open>gen_unpack_spec(tpl)\<close>. The loop over \<^verbatim>\<open>enumerate(tpl.elts)\<close> is
  \<open>unpack_childs\<close>: it carries the index and the offset, and gives the elements
  appended to the tuple under the key \<^verbatim>\<open>'childs'\<close>, in order.
\<close>

function gen_unpack_spec :: "compat \<Rightarrow> node \<Rightarrow> exn + node"
and unpack_childs :: "compat \<Rightarrow> int \<Rightarrow> nat \<Rightarrow> int \<Rightarrow> val list \<Rightarrow> exn + val list"
where
  "gen_unpack_spec cfg tpl =
     (case getattr tpl ''elts'' of Inl e \<Rightarrow> Inl e
      | Inr v \<Rightarrow>
        (case as_list v of Inl e \<Rightarrow> Inl e
         | Inr elts \<Rightarrow>
           (let min_len = int (length (filter (\<lambda>ob. \<not> is_starred cfg ob) elts)) in
            case unpack_childs cfg min_len 0 0 elts of Inl e \<Rightarrow> Inl e
            | Inr childs \<Rightarrow>
                Inr (mk_Dict [VNode (mk_Str (VStr ''childs'')), VNode (mk_Str (VStr ''min_len''))]
                       [VNode (mk_Tuple childs ''Load''), VNode (mk_Num min_len)]))))"
| "unpack_childs cfg min_len idx offset [] = Inr []"
| "unpack_childs cfg min_len idx offset (val # rest) =
     (if is_starred cfg val then unpack_childs cfg min_len (Suc idx) (min_len + 1) rest
      else case val of
        VNode t \<Rightarrow>
          (if cls t = ''Tuple'' then
             (case gen_unpack_spec cfg t of Inl e \<Rightarrow> Inl e
              | Inr spec \<Rightarrow>
                (case unpack_childs cfg min_len (Suc idx) offset rest of Inl e \<Rightarrow> Inl e
                 | Inr childs \<Rightarrow>
                     Inr (VNode (mk_Tuple [VNode (mk_Num (int idx - offset)), VNode spec] ''Load'')
                            # childs)))
           else unpack_childs cfg min_len (Suc idx) offset rest)
      | _ \<Rightarrow> unpack_childs cfg min_len (Suc idx) offset rest)"
  by pat_completeness auto
termination
  by (relation "measure (\<lambda>x. case x of Inl (cfg, tpl) \<Rightarrow> size tpl
                                | Inr (cfg, m, i, off, vs) \<Rightarrow> size_list size vs)")
     (auto dest: getattr_list_size_less)

declare gen_unpack_spec.simps [simp del]

text \<open>
  A tuple target as the parser builds it: the node has its list \<^verbatim>\<open>elts\<close>, and so
  has every tuple in that list that \<^verbatim>\<open>gen_unpack_spec\<close> descends into. This is the
  precondition under which \<^verbatim>\<open>gen_unpack_spec\<close> is shown to return.
\<close>

function tuple_ok :: "compat \<Rightarrow> node \<Rightarrow> bool"
and elts_ok :: "compat \<Rightarrow> val list \<Rightarrow> bool"
where
  "tuple_ok cfg tpl =
     (case getattr tpl ''elts'' of Inl e \<Rightarrow> False
      | Inr v \<Rightarrow> (case as_list v of Inl e \<Rightarrow> False | Inr elts \<Rightarrow> elts_ok cfg elts))"
| "elts_ok cfg [] = True"
| "elts_ok cfg (val # rest) =
     (if is_starred cfg val then elts_ok cfg rest
      else case val of
        VNode t \<Rightarrow> (if cls t = ''Tuple'' then tuple_ok cfg t \<and> elts_ok cfg rest
                    else elts_ok cfg rest)
      | _ \<Rightarrow> elts_ok cfg rest)"
  by pat_completeness auto
termination
  by (relation "measure (\<lambda>x. case x of Inl (cfg, tpl) \<Rightarrow> size tpl
                                | Inr (cfg, vs) \<Rightarrow> size_list size vs)")
     (auto dest: getattr_list_size_less)

declare tuple_ok.simps [simp del]


definition protect_unpack_sequence :: "compat \<Rightarrow> node \<Rightarrow> val \<Rightarrow> exn + node" where
  "protect_unpack_sequence cfg target v =
     (case gen_unpack_spec cfg target of Inl e \<Rightarrow> Inl e
      | Inr spec \<Rightarrow>
          Inr (mk_Call (VNode (mk_Name (VStr ''_unpack_sequence_'') ''Load''))
                 [v, VNode spec, VNode (mk_Name (VStr ''_getiter_'') ''Load'')] []))"

definition gen_del_stmt :: "string \<Rightarrow> node" where
  "gen_del_stmt name_to_del = mk_Delete [VNode (mk_Name (VStr name_to_del) ''Del'')]"

text \<open>
  \<^verbatim>\<open>gen_unpack_wrapper(node, target, ctx)\<close> gives the temporary name node and the
  \<^verbatim>\<open>try\<close> ... \<^verbatim>\<open>finally\<close> that unpacks it.
\<close>

definition gen_unpack_wrapper :: "compat \<Rightarrow> node \<Rightarrow> node \<Rightarrow> string \<Rightarrow> (node \<times> node) comp" where
  "gen_unpack_wrapper cfg node target ctx =
     bindM gen_tmp_name (\<lambda>tmp_name.
     bindM (liftE (protect_unpack_sequence cfg target (VNode (mk_Name (VStr tmp_name) ''Load''))))
       (\<lambda>converter.
     let try_body = [VNode (mk_Assign [VNode target] (VNode converter))];
         finalbody = [VNode (gen_del_stmt tmp_name)];
         cleanup = (if IS_PY2 cfg then mk_TryFinally try_body finalbody
                    else mk_Try try_body [] [] finalbody)
     in if ctx = ''store'' \<or> ctx = ''param'' then
          bindM (liftE (copy_locations
                   (mk_Name (VStr tmp_name) (if ctx = ''store'' then ''Store'' else ''Param''))
                   (VNode node))) (\<lambda>tmp_target.
          bindM (liftE (copy_locations cleanup (VNode node))) (\<lambda>cleanup'.
          returnM (tmp_target, cleanup')))
        else raiseM (PyException ''Unsupported context type.'')))"

definition gen_none_node :: "compat \<Rightarrow> node" where
  "gen_none_node cfg =
     (if IS_PY34_OR_GREATER cfg then Node ''NameConstant'' [(''value'', VNone)] None
      else mk_Name (VStr ''None'') ''Load'')"

definition gen_lambda :: "val list \<Rightarrow> val \<Rightarrow> node" where
  "gen_lambda args body = mk_Lambda (mk_arguments args VNone VNone []) body"

text \<open>
  \<^verbatim>\<open>transform_slice(slice_)\<close>. The text of the exception of the last branch holds
  the address of the object; the model keeps the fixed part of it.
\<close>

function transform_slice :: "compat \<Rightarrow> val \<Rightarrow> exn + val"
and transform_dims :: "compat \<Rightarrow> val list \<Rightarrow> exn + val list"
where
  "transform_slice cfg slc =
     (if isinstance slc ''Index'' then vgetattr slc ''value''
      else if isinstance slc ''Slice'' then
        (case vgetattr slc ''lower'' of Inl e \<Rightarrow> Inl e
         | Inr lower \<Rightarrow>
           (case vgetattr slc ''upper'' of Inl e \<Rightarrow> Inl e
            | Inr upper \<Rightarrow>
              (case vgetattr slc ''step'' of Inl e \<Rightarrow> Inl e
               | Inr step \<Rightarrow>
                   Inr (VNode (mk_Call (VNode (mk_Name (VStr ''slice'') ''Load''))
                     [if truthy lower then lower else VNode (gen_none_node cfg),
                      if truthy upper then upper else VNode (gen_none_node cfg),
                      if truthy step then step else VNode (gen_none_node cfg)] [])))))
      else if isinstance slc ''ExtSlice'' then
        (case vgetattr slc ''dims'' of Inl e \<Rightarrow> Inl e
         | Inr v \<Rightarrow>
           (case as_list v of Inl e \<Rightarrow> Inl e
            | Inr dims \<Rightarrow>
              (case transform_dims cfg dims of Inl e \<Rightarrow> Inl e
               | Inr elts \<Rightarrow> Inr (VNode (mk_Tuple elts ''Load'')))))
      else Inl (PyException ''Unknown slice type''))"
| "transform_dims cfg [] = Inr []"
| "transform_dims cfg (item # rest) =
     (case transform_slice cfg item of Inl e \<Rightarrow> Inl e
      | Inr t \<Rightarrow>
        (case transform_dims cfg rest of Inl e \<Rightarrow> Inl e
         | Inr ts \<Rightarrow> Inr (t # ts)))"
  by pat_completeness auto
termination
  by (relation "measure (\<lambda>x. case x of Inl (cfg, v) \<Rightarrow> size v
                                | Inr (cfg, vs) \<Rightarrow> size_list size vs)")
     (auto simp: vgetattr_def split: val.splits dest: getattr_list_size_less)

declare transform_slice.simps [simp del]

definition gen_attr_check :: "val \<Rightarrow> string \<Rightarrow> node" where
  "gen_attr_check node attr_name =
     mk_BoolOp (Node ''And'' [] None)
       [VNode (mk_Call (VNode (mk_Name (VStr ''_getattr_'') ''Load''))
          [node, VNode (mk_Str (VStr attr_name))] []), node]"

section \<open>The handlers\<close>

text \<open>
  Every handler that looks at the children of its node does so by one call
  \<^verbatim>\<open>self.node_contents_visit(node)\<close> on its own node. In the model this call is the
  parameter \<open>ncv\<close> of the handler: the computation that walks the contents of the node
  and gives the node back. The walk itself is defined after the handlers.
\<close>

definition as_str :: "val \<Rightarrow> exn + string" where
  "as_str v = (case v of VStr s \<Rightarrow> Inr s | _ \<Rightarrow> Inl AttributeError)"

definition list_insert :: "nat \<Rightarrow> 'a \<Rightarrow> 'a list \<Rightarrow> 'a list" where
  "list_insert i x xs = take i xs @ [x] @ drop i xs"

text \<open>\<^verbatim>\<open>node.body.insert(position, stmt)\<close>.\<close>

definition body_insert :: "node \<Rightarrow> nat \<Rightarrow> val \<Rightarrow> exn + node" where
  "body_insert node position stmt =
     (case getattr node ''body'' of Inl e \<Rightarrow> Inl e
      | Inr (VList body) \<Rightarrow> Inr (setattr node ''body'' (VList (list_insert position stmt body)))
      | Inr _ \<Rightarrow> Inl AttributeError)"

definition not_allowed :: "node \<Rightarrow> unit comp" where
  "not_allowed node = modifyM (error node (cls node @ '' statements are not allowed.''))"

definition generic_visit :: "node \<Rightarrow> val comp" where
  "generic_visit node =
     bindM (modifyM (warn node (cls node @ '' statement is not known to RestrictedPython'')))
       (\<lambda>_.
     bindM (not_allowed node) (\<lambda>_.
     returnM VNone))"

definition set_used_name :: "val \<Rightarrow> unit comp" where
  "set_used_name k =
     (case k of VList _ \<Rightarrow> raiseM TypeError
      | _ \<Rightarrow> modifyM (\<lambda>st. st\<lparr>used_names := AList.update k True (used_names st)\<rparr>))"

definition visit_Name :: "node comp \<Rightarrow> val comp" where
  "visit_Name ncv =
     bindM ncv (\<lambda>node.
     bindM (liftE (getattr node ''ctx'')) (\<lambda>ctx.
     if isinstance ctx ''Load'' then
       bindM (liftE (getattr node ''id'')) (\<lambda>ident.
       if ident = VStr ''printed'' then
         bindM (modifyM (\<lambda>st. st\<lparr>printed_used := True\<rparr>)) (\<lambda>_.
         bindM (liftE (copy_locations
                  (mk_Call (VNode (mk_Name (VStr ''_print'') ''Load'')) [] []) (VNode node)))
           (\<lambda>new_node.
         returnM (VNode new_node)))
       else if ident = VStr ''print'' then
         bindM (modifyM (\<lambda>st. st\<lparr>print_used := True\<rparr>)) (\<lambda>_.
         bindM (liftE (copy_locations
                  (mk_Attribute (VNode (mk_Name (VStr ''_print'') ''Load''))
                     (VStr ''_call_print'') ''Load'') (VNode node)))
           (\<lambda>new_node.
         returnM (VNode new_node)))
       else
         bindM (set_used_name ident) (\<lambda>_.
         bindM (check_name node ident) (\<lambda>_.
         returnM (VNode node))))
     else
       bindM (liftE (getattr node ''id'')) (\<lambda>ident.
       bindM (check_name node ident) (\<lambda>_.
       returnM (VNode node)))))"

fun any_kwarg_none :: "val list \<Rightarrow> exn + bool" where
  "any_kwarg_none [] = Inr False"
| "any_kwarg_none (keyword_arg # rest) =
     (case vgetattr keyword_arg ''arg'' of Inl e \<Rightarrow> Inl e
      | Inr a \<Rightarrow>
        (case any_kwarg_none rest of Inl e \<Rightarrow> Inl e
         | Inr b \<Rightarrow> Inr (a = VNone \<or> b)))"

definition call_needs_wrap :: "compat \<Rightarrow> node \<Rightarrow> exn + bool" where
  "call_needs_wrap cfg node =
     (if IS_PY35_OR_GREATER cfg then
        (case getattr node ''args'' of Inl e \<Rightarrow> Inl e
         | Inr av \<Rightarrow>
           (case as_list av of Inl e \<Rightarrow> Inl e
            | Inr args \<Rightarrow>
              (case getattr node ''keywords'' of Inl e \<Rightarrow> Inl e
               | Inr kv \<Rightarrow>
                 (case as_list kv of Inl e \<Rightarrow> Inl e
                  | Inr keywords \<Rightarrow>
                    (case any_kwarg_none keywords of Inl e \<Rightarrow> Inl e
                     | Inr b \<Rightarrow> Inr (list_ex (\<lambda>pos_arg. isinstance pos_arg ''Starred'') args \<or> b))))))
      else
        (case getattr node ''starargs'' of Inl e \<Rightarrow> Inl e
         | Inr starargs \<Rightarrow>
           (if starargs \<noteq> VNone then Inr True
            else case getattr node ''kwargs'' of Inl e \<Rightarrow> Inl e
                 | Inr kwargs \<Rightarrow> Inr (kwargs \<noteq> VNone))))"

definition visit_Call :: "compat \<Rightarrow> node comp \<Rightarrow> node \<Rightarrow> val comp" where
  "visit_Call cfg ncv node =
     bindM (liftE (getattr node ''func'')) (\<lambda>func.
     bindM (if isinstance func ''Name'' then
              bindM (liftE (vgetattr func ''id'')) (\<lambda>ident.
              if ident = VStr ''exec'' then modifyM (error node ''Exec calls are not allowed.'')
              else if ident = VStr ''eval'' then modifyM (error node ''Eval calls are not allowed.'')
              else returnM ())
            else returnM ()) (\<lambda>_.
     bindM (liftE (call_needs_wrap cfg node)) (\<lambda>needs_wrap.
     bindM ncv (\<lambda>node'.
     if \<not> needs_wrap then returnM (VNode node')
     else
       bindM (liftE (getattr node' ''args'')) (\<lambda>av.
       case av of
         VList args \<Rightarrow>
           bindM (liftE (getattr node' ''func'')) (\<lambda>func'.
           bindM (liftE (copy_locations (mk_Name (VStr ''_apply_'') ''Load'') func')) (\<lambda>new_func.
           returnM (VNode (setattr (setattr node' ''args'' (VList (func' # args)))
                             ''func'' (VNode new_func)))))
       | _ \<Rightarrow> raiseM AttributeError)))))"

text \<open>
  The two checks of the name at the head of \<^verbatim>\<open>visit_Attribute\<close>: two separate
  \<^verbatim>\<open>if\<close> statements, so a name can get both errors.
\<close>

definition check_attr_name :: "node \<Rightarrow> string \<Rightarrow> state \<Rightarrow> state" where
  "check_attr_name node attr st =
     (let st1 = (if startswith attr ''_'' \<and> attr \<noteq> ''_'' then
                   error node
                     (''\"'' @ attr @ ''\" is an invalid attribute name because it starts with \"_\".'')
                     st
                 else st)
      in if endswith attr ''__roles__'' then
           error node
             (''\"'' @ attr @ ''\" is an invalid attribute name because it ends with \"__roles__\".'')
             st1
         else st1)"

definition visit_Attribute :: "node comp \<Rightarrow> node \<Rightarrow> val comp" where
  "visit_Attribute ncv node =
     bindM (liftE (getattr node ''attr'')) (\<lambda>av.
     bindM (liftE (as_str av)) (\<lambda>attr.
     bindM (modifyM (check_attr_name node attr)) (\<lambda>_.
     bindM (liftE (getattr node ''ctx'')) (\<lambda>ctx.
     if isinstance ctx ''Load'' then
       bindM ncv (\<lambda>node'.
       bindM (liftE (getattr node' ''value'')) (\<lambda>v.
       bindM (liftE (getattr node' ''attr'')) (\<lambda>attr'.
       bindM (liftE (copy_locations
                (mk_Call (VNode (mk_Name (VStr ''_getattr_'') ''Load''))
                   [v, VNode (mk_Str attr')] []) (VNode node'))) (\<lambda>new_node.
       returnM (VNode new_node)))))
     else if isinstance ctx ''Store'' \<or> isinstance ctx ''Del'' then
       bindM ncv (\<lambda>node'.
       bindM (liftE (getattr node' ''value'')) (\<lambda>v.
       bindM (liftE (copy_locations
                (mk_Call (VNode (mk_Name (VStr ''_write_'') ''Load'')) [v] []) v)) (\<lambda>new_value.
       returnM (VNode (setattr node' ''value'' (VNode new_value))))))
     else
       bindM ncv (\<lambda>node'. returnM (VNode node'))))))"

definition visit_Subscript :: "compat \<Rightarrow> node comp \<Rightarrow> val comp" where
  "visit_Subscript cfg ncv =
     bindM ncv (\<lambda>node.
     bindM (liftE (getattr node ''ctx'')) (\<lambda>ctx.
     if isinstance ctx ''Load'' then
       bindM (liftE (getattr node ''value'')) (\<lambda>v.
       bindM (liftE (getattr node ''slice'')) (\<lambda>slc.
       bindM (liftE (transform_slice cfg slc)) (\<lambda>arg.
       bindM (liftE (copy_locations
                (mk_Call (VNode (mk_Name (VStr ''_getitem_'') ''Load'')) [v, arg] [])
                (VNode node))) (\<lambda>new_node.
       returnM (VNode new_node)))))
     else if isinstance ctx ''Del'' \<or> isinstance ctx ''Store'' then
       bindM (liftE (getattr node ''value'')) (\<lambda>v.
       bindM (liftE (copy_locations
                (mk_Call (VNode (mk_Name (VStr ''_write_'') ''Load'')) [v] []) (VNode node)))
         (\<lambda>new_value.
       returnM (VNode (setattr node ''value'' (VNode new_value)))))
     else returnM (VNode node)))"

definition guard_iter :: "compat \<Rightarrow> node comp \<Rightarrow> val comp" where
  "guard_iter cfg ncv =
     bindM ncv (\<lambda>node.
     bindM (liftE (getattr node ''target'')) (\<lambda>target.
     bindM (case target of
              VNode t \<Rightarrow>
                (if cls t = ''Tuple'' then
                   bindM (liftE (gen_unpack_spec cfg t)) (\<lambda>spec.
                   bindM (liftE (getattr node ''iter'')) (\<lambda>it.
                   returnM (mk_Call (VNode (mk_Name (VStr ''_iter_unpack_sequence_'') ''Load''))
                              [it, VNode spec, VNode (mk_Name (VStr ''_getiter_'') ''Load'')] [])))
                 else
                   bindM (liftE (getattr node ''iter'')) (\<lambda>it.
                   returnM (mk_Call (VNode (mk_Name (VStr ''_getiter_'') ''Load'')) [it] [])))
            | _ \<Rightarrow>
                bindM (liftE (getattr node ''iter'')) (\<lambda>it.
                returnM (mk_Call (VNode (mk_Name (VStr ''_getiter_'') ''Load'')) [it] [])))
       (\<lambda>new_iter.
     bindM (liftE (getattr node ''iter'')) (\<lambda>it.
     bindM (liftE (copy_locations new_iter it)) (\<lambda>new_iter'.
     returnM (VNode (setattr node ''iter'' (VNode new_iter'))))))))"

text \<open>
  The loop of \<^verbatim>\<open>visit_Assign\<close> over \<^verbatim>\<open>reversed(node.targets)\<close>; it is given the
  targets already reversed.
\<close>

fun assign_targets :: "compat \<Rightarrow> node \<Rightarrow> val list \<Rightarrow> exn + node list" where
  "assign_targets cfg node [] = Inr []"
| "assign_targets cfg node (target # rest) =
     (case getattr node ''value'' of Inl e \<Rightarrow> Inl e
      | Inr v \<Rightarrow>
        (case (case target of
                 VNode t \<Rightarrow>
                   (if cls t = ''Tuple'' then
                      (case protect_unpack_sequence cfg t v of Inl e \<Rightarrow> Inl e
                       | Inr wrapped \<Rightarrow> Inr (mk_Assign [target] (VNode wrapped)))
                    else Inr (mk_Assign [target] v))
               | _ \<Rightarrow> Inr (mk_Assign [target] v)) of
           Inl e \<Rightarrow> Inl e
         | Inr new_node \<Rightarrow>
           (case assign_targets cfg node rest of Inl e \<Rightarrow> Inl e
            | Inr new_nodes \<Rightarrow> Inr (new_node # new_nodes))))"

fun copy_locations_all :: "node list \<Rightarrow> val \<Rightarrow> exn + node list" where
  "copy_locations_all [] old = Inr []"
| "copy_locations_all (new_node # rest) old =
     (case copy_locations new_node old of Inl e \<Rightarrow> Inl e
      | Inr n \<Rightarrow>
        (case copy_locations_all rest old of Inl e \<Rightarrow> Inl e
         | Inr ns \<Rightarrow> Inr (n # ns)))"

definition visit_Assign :: "compat \<Rightarrow> node comp \<Rightarrow> val comp" where
  "visit_Assign cfg ncv =
     bindM ncv (\<lambda>node.
     bindM (liftE (getattr node ''targets'')) (\<lambda>tv.
     bindM (liftE (as_list tv)) (\<lambda>targets.
     if \<not> list_ex (\<lambda>t. isinstance t ''Tuple'') targets then returnM (VNode node)
     else
       bindM (liftE (assign_targets cfg node (rev targets))) (\<lambda>new_nodes.
       bindM (liftE (copy_locations_all new_nodes (VNode node))) (\<lambda>located.
       returnM (VList (map VNode located)))))))"

text \<open>The table \<^verbatim>\<open>IOPERATOR_TO_STR\<close>, keyed by the class of the operator.\<close>

definition IOPERATOR_TO_STR :: "compat \<Rightarrow> (string \<times> string) list" where
  "IOPERATOR_TO_STR cfg =
     [(''Add'', ''+=''), (''Sub'', ''-=''), (''Mult'', ''*=''), (''Div'', ''/=''),
      (''Mod'', ''%=''), (''Pow'', ''**=''), (''LShift'', ''<<=''), (''RShift'', ''>>=''),
      (''BitOr'', ''|=''), (''BitXor'', ''^=''), (''BitAnd'', ''&=''), (''FloorDiv'', ''//='')]
     @ (if IS_PY35_OR_GREATER cfg then [(''MatMult'', ''@='')] else [])"

definition ioperator_to_str :: "compat \<Rightarrow> val \<Rightarrow> exn + string" where
  "ioperator_to_str cfg op =
     (case op of
        VNode n \<Rightarrow> (case map_of (IOPERATOR_TO_STR cfg) (cls n) of None \<Rightarrow> Inl KeyError
                    | Some tok \<Rightarrow> Inr tok)
      | _ \<Rightarrow> Inl KeyError)"

definition visit_AugAssign :: "compat \<Rightarrow> node comp \<Rightarrow> val comp" where
  "visit_AugAssign cfg ncv =
     bindM ncv (\<lambda>node.
     bindM (liftE (getattr node ''target'')) (\<lambda>target.
     if isinstance target ''Attribute'' then
       bindM (modifyM (error node ''Augmented assignment of attributes is not allowed.'')) (\<lambda>_.
       returnM (VNode node))
     else if isinstance target ''Subscript'' then
       bindM (modifyM (error node
                ''Augmented assignment of object items and slices is not allowed.'')) (\<lambda>_.
       returnM (VNode node))
     else if isinstance target ''Name'' then
       bindM (liftE (getattr node ''op'')) (\<lambda>op.
       bindM (liftE (ioperator_to_str cfg op)) (\<lambda>tok.
       bindM (liftE (vgetattr target ''id'')) (\<lambda>ident.
       bindM (liftE (getattr node ''value'')) (\<lambda>v.
       bindM (liftE (copy_locations
                (mk_Assign [target]
                   (VNode (mk_Call (VNode (mk_Name (VStr ''_inplacevar_'') ''Load''))
                      [VNode (mk_Str (VStr tok)), VNode (mk_Name ident ''Load''), v] [])))
                (VNode node))) (\<lambda>new_node.
       returnM (VNode new_node))))))
     else returnM (VNode node)))"

definition visit_Print :: "node comp \<Rightarrow> node \<Rightarrow> val comp" where
  "visit_Print ncv node =
     bindM (modifyM (\<lambda>st. st\<lparr>print_used := True\<rparr>)) (\<lambda>_.
     bindM (modifyM (warn node
              ''Print statement is deprecated and not avaliable anymore in Python 3.'')) (\<lambda>_.
     bindM ncv (\<lambda>node'.
     bindM (liftE (getattr node' ''dest'')) (\<lambda>dest.
     bindM (liftE (copy_locations
              (if dest = VNone then mk_Name (VStr ''_print'') ''Load''
               else gen_attr_check dest ''write'') (VNode node'))) (\<lambda>new_dest.
     returnM (VNode (setattr node' ''dest'' (VNode new_dest))))))))"

definition check_import_names :: "node comp \<Rightarrow> node \<Rightarrow> val comp" where
  "check_import_names ncv node =
     bindM (liftE (getattr node ''names'')) (\<lambda>nv.
     bindM (liftE (as_list nv)) (\<lambda>names.
     bindM (forM names (\<lambda>al.
              bindM (liftE (vgetattr al ''name'')) (\<lambda>name.
              bindM (check_name node name) (\<lambda>_.
              bindM (liftE (vgetattr al ''asname'')) (\<lambda>asname.
              if truthy asname then check_name node asname else returnM ()))))) (\<lambda>_.
     bindM ncv (\<lambda>node'.
     returnM (VNode node')))))"

definition visit_ExceptHandler :: "compat \<Rightarrow> node comp \<Rightarrow> val comp" where
  "visit_ExceptHandler cfg ncv =
     bindM ncv (\<lambda>node.
     if IS_PY3 cfg then
       bindM (liftE (getattr node ''name'')) (\<lambda>name.
       bindM (check_name node name) (\<lambda>_.
       returnM (VNode node)))
     else
       bindM (liftE (getattr node ''name'')) (\<lambda>name.
       case name of
         VNode t \<Rightarrow>
           (if cls t = ''Tuple'' then
              bindM (gen_unpack_wrapper cfg node t ''store'') (\<lambda>(tmp_target, unpack).
              bindM (liftE (body_insert (setattr node ''name'' (VNode tmp_target)) 0 (VNode unpack)))
                (\<lambda>node'.
              returnM (VNode node')))
            else returnM (VNode node))
       | _ \<Rightarrow> returnM (VNode node)))"

text \<open>
  The loop of \<^verbatim>\<open>visit_With\<close> over \<^verbatim>\<open>reversed(node.items)\<close> (Python 3). It is given
  the items already reversed and the node, and gives the items back in the same
  (reversed) order together with the node, whose body has got the unpack
  statements.
\<close>

fun with_items :: "compat \<Rightarrow> val list \<Rightarrow> node \<Rightarrow> (val list \<times> node) comp" where
  "with_items cfg [] node = returnM ([], node)"
| "with_items cfg (item # rest) node =
     bindM (liftE (vgetattr item ''optional_vars'')) (\<lambda>optional_vars.
     case (optional_vars, item) of
       (VNode t, VNode item_node) \<Rightarrow>
         (if cls t = ''Tuple'' then
            bindM (gen_unpack_wrapper cfg node t ''store'') (\<lambda>(tmp_target, unpack).
            bindM (liftE (body_insert node 0 (VNode unpack))) (\<lambda>node'.
            bindM (with_items cfg rest node') (\<lambda>(rest', node'').
            returnM (VNode (setattr item_node ''optional_vars'' (VNode tmp_target)) # rest',
                     node''))))
          else
            bindM (with_items cfg rest node) (\<lambda>(rest', node'').
            returnM (item # rest', node'')))
     | _ \<Rightarrow>
         bindM (with_items cfg rest node) (\<lambda>(rest', node'').
         returnM (item # rest', node'')))"

definition visit_With :: "compat \<Rightarrow> node comp \<Rightarrow> val comp" where
  "visit_With cfg ncv =
     bindM ncv (\<lambda>node.
     if IS_PY2 cfg then
       bindM (liftE (getattr node ''optional_vars'')) (\<lambda>optional_vars.
       case optional_vars of
         VNode t \<Rightarrow>
           (if cls t = ''Tuple'' then
              bindM (gen_unpack_wrapper cfg node t ''store'') (\<lambda>(tmp_target, unpack).
              bindM (liftE (body_insert (setattr node ''optional_vars'' (VNode tmp_target)) 0
                       (VNode unpack))) (\<lambda>node'.
              returnM (VNode node')))
            else returnM (VNode node))
       | _ \<Rightarrow> returnM (VNode node))
     else
       bindM (liftE (getattr node ''items'')) (\<lambda>iv.
       bindM (liftE (as_list iv)) (\<lambda>items.
       bindM (with_items cfg (rev items) node) (\<lambda>(items', node').
       returnM (VNode (setattr node' ''items'' (VList (rev items'))))))))"

text \<open>
  \<^verbatim>\<open>check_function_argument_names(node)\<close>. For Python 2 the source works off a list
  \<^verbatim>\<open>to_check\<close> from its end (\<^verbatim>\<open>pop\<close>) and appends the elements of a tuple parameter
  to it; \<open>check_args_py2\<close> holds that list reversed, the next item first.
\<close>

lemma size_list_rev: "size_list f (rev xs) = size_list f xs"
  by (induction xs) (auto simp: size_list_append)

function check_args_py2 :: "node \<Rightarrow> val list \<Rightarrow> unit comp" where
  "check_args_py2 node [] st = Inr ((), st)"
| "check_args_py2 node (item # to_check) st =
     (case item of
        VNode t \<Rightarrow>
          (if cls t = ''Tuple'' then
             (case getattr t ''elts'' of Inl e \<Rightarrow> Inl e
              | Inr v \<Rightarrow>
                (case as_list v of Inl e \<Rightarrow> Inl e
                 | Inr elts \<Rightarrow> check_args_py2 node (rev elts @ to_check) st))
           else
             (case getattr t ''id'' of Inl e \<Rightarrow> Inl e
              | Inr ident \<Rightarrow>
                (case check_name node ident st of Inl e \<Rightarrow> Inl e
                 | Inr (u, st') \<Rightarrow> check_args_py2 node to_check st')))
      | _ \<Rightarrow> Inl AttributeError)"
  by pat_completeness auto
termination
  by (relation "measure (\<lambda>(node, to_check, st). size_list size to_check)")
     (auto simp: size_list_append size_list_rev dest: getattr_list_size_less)

definition check_function_argument_names :: "compat \<Rightarrow> node \<Rightarrow> unit comp" where
  "check_function_argument_names cfg node =
     bindM (liftE (getattr node ''args'')) (\<lambda>arguments.
     if IS_PY2 cfg then
       bindM (liftE (vgetattr arguments ''args'')) (\<lambda>av.
       bindM (liftE (as_list av)) (\<lambda>args.
       bindM (check_args_py2 node (rev args)) (\<lambda>_.
       bindM (liftE (vgetattr arguments ''vararg'')) (\<lambda>vararg.
       bindM (check_name node vararg) (\<lambda>_.
       bindM (liftE (vgetattr arguments ''kwarg'')) (\<lambda>kwarg.
       check_name node kwarg))))))
     else
       bindM (liftE (vgetattr arguments ''args'')) (\<lambda>av.
       bindM (liftE (as_list av)) (\<lambda>args.
       bindM (forM args (\<lambda>arg.
                bindM (liftE (vgetattr arg ''arg'')) (\<lambda>name. check_name node name))) (\<lambda>_.
       bindM (liftE (vgetattr arguments ''vararg'')) (\<lambda>vararg.
       bindM (if truthy vararg then
                bindM (liftE (vgetattr vararg ''arg'')) (\<lambda>name. check_name node name)
              else returnM ()) (\<lambda>_.
       bindM (liftE (vgetattr arguments ''kwarg'')) (\<lambda>kwarg.
       bindM (if truthy kwarg then
                bindM (liftE (vgetattr kwarg ''arg'')) (\<lambda>name. check_name node name)
              else returnM ()) (\<lambda>_.
       bindM (liftE (vgetattr arguments ''kwonlyargs'')) (\<lambda>kv.
       bindM (liftE (as_list kv)) (\<lambda>kwonlyargs.
       forM kwonlyargs (\<lambda>arg.
         bindM (liftE (vgetattr arg ''arg'')) (\<lambda>name. check_name node name))))))))))))"

text \<open>
  \<^verbatim>\<open>inject_print_collector(node, position)\<close>; it gives the node back. For a module the
  line of the new statement is \<^verbatim>\<open>position\<close>, otherwise it is copied from the node.
\<close>

definition inject_print_collector :: "node \<Rightarrow> nat \<Rightarrow> node comp" where
  "inject_print_collector node position = (\<lambda>st.
     if print_used st \<or> printed_used st then
       (let print_stmt = mk_Assign [VNode (mk_Name (VStr ''_print'') ''Store'')]
              (VNode (mk_Call (VNode (mk_Name (VStr ''_print_'') ''Load''))
                        [VNode (mk_Name (VStr ''_getattr_'') ''Load'')] []))
        in
          (bindM (liftE (if cls node = ''Module'' then
                           Inr (fix_missing_locations
                                  (Node (cls print_stmt) (flds print_stmt) (Some position)))
                         else copy_locations print_stmt (VNode node))) (\<lambda>located.
           bindM (liftE (body_insert node position (VNode located))) (\<lambda>node'.
           bindM (if \<not> printed_used st then
                    modifyM (warn node ''Prints, but never reads 'printed' variable.'')
                  else if \<not> print_used st then
                    modifyM (warn node ''Doesn't print, but reads 'printed' variable.'')
                  else returnM ()) (\<lambda>_.
           returnM node')))) st)
     else Inr (node, st))"

text \<open>
  The context manager \<^verbatim>\<open>new_print_scope\<close>: the two flags are cleared for the body
  and put back after it.
\<close>

definition new_print_scope :: "'a comp \<Rightarrow> 'a comp" where
  "new_print_scope body = (\<lambda>st.
     case body (st\<lparr>print_used := False, printed_used := False\<rparr>) of
       Inl e \<Rightarrow> Inl e
     | Inr (x, st') \<Rightarrow>
         Inr (x, st'\<lparr>print_used := print_used st, printed_used := printed_used st\<rparr>))"

text \<open>
  The loop of \<^verbatim>\<open>visit_FunctionDef\<close> over the parameters (Python 2): the new list of
  parameters and the unpack statements, in order.
\<close>

fun param_unpacks :: "compat \<Rightarrow> node \<Rightarrow> val list \<Rightarrow> (val list \<times> val list) comp" where
  "param_unpacks cfg node [] = returnM ([], [])"
| "param_unpacks cfg node (arg # rest) =
     (case arg of
        VNode t \<Rightarrow>
          (if cls t = ''Tuple'' then
             bindM (gen_unpack_wrapper cfg node t ''param'') (\<lambda>(tmp_target, unpack).
             bindM (param_unpacks cfg node rest) (\<lambda>(args, unpacks).
             returnM (VNode tmp_target # args, VNode unpack # unpacks)))
           else
             bindM (param_unpacks cfg node rest) (\<lambda>(args, unpacks).
             returnM (arg # args, unpacks)))
      | _ \<Rightarrow>
          bindM (param_unpacks cfg node rest) (\<lambda>(args, unpacks).
          returnM (arg # args, unpacks)))"

definition visit_FunctionDef :: "compat \<Rightarrow> node comp \<Rightarrow> node \<Rightarrow> val comp" where
  "visit_FunctionDef cfg ncv node =
     bindM (liftE (getattr node ''name'')) (\<lambda>name.
     bindM (check_name node name) (\<lambda>_.
     bindM (check_function_argument_names cfg node) (\<lambda>_.
     bindM (new_print_scope (bindM ncv (\<lambda>node'. inject_print_collector node' 0))) (\<lambda>node'.
     if IS_PY3 cfg then returnM (VNode node')
     else
       bindM (liftE (getattr node' ''args'')) (\<lambda>arguments.
       bindM (liftE (vgetattr arguments ''args'')) (\<lambda>av.
       bindM (liftE (as_list av)) (\<lambda>args.
       bindM (param_unpacks cfg node' args) (\<lambda>(args', unpacks).
       bindM (liftE (getattr node' ''body'')) (\<lambda>bv.
       case (arguments, bv) of
         (VNode a, VList body) \<Rightarrow>
           returnM (VNode (setattr (setattr node' ''args'' (VNode (setattr a ''args'' (VList args'))))
                             ''body'' (VList (unpacks @ body))))
       | _ \<Rightarrow> raiseM TypeError)))))))))"

text \<open>
  The loop of \<^verbatim>\<open>visit_Lambda\<close> over the parameters (Python 2): the parameters of the
  outer lambda and the arguments of the call of the inner one.
\<close>

fun lambda_params :: "compat \<Rightarrow> val list \<Rightarrow> (val list \<times> val list) comp" where
  "lambda_params cfg [] = returnM ([], [])"
| "lambda_params cfg (arg # rest) =
     (if isinstance arg ''Tuple'' then
        bindM gen_tmp_name (\<lambda>tmp_name.
        bindM (liftE (case arg of
                 VNode t \<Rightarrow> protect_unpack_sequence cfg t (VNode (mk_Name (VStr tmp_name) ''Load''))
               | _ \<Rightarrow> Inl AttributeError)) (\<lambda>converter.
        bindM (lambda_params cfg rest) (\<lambda>(outer_params, inner_args).
        returnM (VNode (mk_Name (VStr tmp_name) ''Param'') # outer_params,
                 VNode converter # inner_args))))
      else
        bindM (liftE (vgetattr arg ''id'')) (\<lambda>ident.
        bindM (lambda_params cfg rest) (\<lambda>(outer_params, inner_args).
        returnM (arg # outer_params, VNode (mk_Name ident ''Load'') # inner_args))))"

definition visit_Lambda :: "compat \<Rightarrow> node comp \<Rightarrow> node \<Rightarrow> val comp" where
  "visit_Lambda cfg ncv node =
     bindM (check_function_argument_names cfg node) (\<lambda>_.
     bindM ncv (\<lambda>node'.
     if IS_PY3 cfg then returnM (VNode node')
     else
       bindM (liftE (getattr node' ''args'')) (\<lambda>arguments.
       bindM (liftE (vgetattr arguments ''args'')) (\<lambda>av.
       bindM (liftE (as_list av)) (\<lambda>args.
       if \<not> list_ex (\<lambda>arg. isinstance arg ''Tuple'') args then returnM (VNode node')
       else
         bindM (lambda_params cfg args) (\<lambda>(outer_params, inner_args).
         bindM (liftE (vgetattr arguments ''vararg'')) (\<lambda>vararg.
         bindM (liftE (vgetattr arguments ''kwarg'')) (\<lambda>kwarg.
         let body = Node ''Call''
               ([(''func'', VNode node'), (''args'', VList inner_args), (''keywords'', VList [])]
                @ (if truthy vararg then [(''starargs'', VNode (mk_Name vararg ''Load''))] else [])
                @ (if truthy kwarg then [(''kwargs'', VNode (mk_Name kwarg ''Load''))] else []))
               None;
             new_node = mk_Lambda
               (mk_arguments outer_params (if truthy vararg then vararg else VNone)
                  (if truthy kwarg then kwarg else VNone) [])
               (VNode body)
         in bindM (liftE (copy_locations new_node (VNode node'))) (\<lambda>located.
            returnM (VNode located))))))))))"

text \<open>
  \<^verbatim>\<open>visit_ClassDef\<close>. For Python 3 the source parses the text
  \<^verbatim>\<open>class NAME(metaclass=__metaclass__): pass\<close> and takes the class statement of the
  result; \<open>parsed_class_def\<close> is that statement for a name that is an identifier, as
  Python's parser gives it (before Python 3.5 a class statement also has the fields
  \<^verbatim>\<open>starargs\<close> and \<^verbatim>\<open>kwargs\<close>). A name that is no string cannot be parsed.
\<close>

definition parsed_class_def :: "compat \<Rightarrow> string \<Rightarrow> node" where
  "parsed_class_def cfg name =
     Node ''ClassDef''
       ([(''name'', VStr name), (''bases'', VList []),
         (''keywords'', VList [VNode (Node ''keyword''
             [(''arg'', VStr ''metaclass''),
              (''value'', VNode (Node ''Name'' [(''id'', VStr ''__metaclass__''),
                                   (''ctx'', VNode (mk_ctx ''Load''))] (Some 1)))] None)])]
        @ (if IS_PY35_OR_GREATER cfg then [] else [(''starargs'', VNone), (''kwargs'', VNone)])
        @ [(''body'', VList [VNode (Node ''Pass'' [] (Some 2))]), (''decorator_list'', VList [])])
       (Some 1)"

fun any_metaclass :: "val list \<Rightarrow> exn + bool" where
  "any_metaclass [] = Inr False"
| "any_metaclass (keyword # rest) =
     (case vgetattr keyword ''arg'' of Inl e \<Rightarrow> Inl e
      | Inr a \<Rightarrow> if a = VStr ''metaclass'' then Inr True else any_metaclass rest)"

definition visit_ClassDef :: "compat \<Rightarrow> node comp \<Rightarrow> node \<Rightarrow> val comp" where
  "visit_ClassDef cfg ncv node =
     bindM (liftE (getattr node ''name'')) (\<lambda>name.
     bindM (check_name node name) (\<lambda>_.
     bindM ncv (\<lambda>node'.
     if IS_PY2 cfg then returnM (VNode node')
     else
       bindM (liftE (getattr node' ''keywords'')) (\<lambda>kv.
       bindM (liftE (as_list kv)) (\<lambda>keywords.
       bindM (liftE (any_metaclass keywords)) (\<lambda>has_metaclass.
       bindM (whenM has_metaclass
                (modifyM (error node' ''The keyword argument \"metaclass\" is not allowed.'')))
         (\<lambda>_.
       bindM (liftE (getattr node' ''name'')) (\<lambda>name'.
       case name' of
         VStr s \<Rightarrow>
           bindM (liftE (getattr node' ''body'')) (\<lambda>body.
           bindM (liftE (getattr node' ''bases'')) (\<lambda>bases.
           bindM (liftE (getattr node' ''decorator_list'')) (\<lambda>decorator_list.
           returnM (VNode (setattr (setattr (setattr (parsed_class_def cfg s)
                             ''body'' body) ''bases'' bases) ''decorator_list'' decorator_list)))))
       | _ \<Rightarrow> raiseM (PyException ''SyntaxError'')))))))))"

text \<open>
  \<^verbatim>\<open>visit_Module\<close>. \<open>module_position\<close> is its loop: the index at which the loop
  breaks, or the last index when it runs to the end, or 0 for an empty body.
\<close>

fun module_position :: "val list \<Rightarrow> nat \<Rightarrow> exn + nat" where
  "module_position [] position = Inr 0"
| "module_position (child # rest) position =
     (if \<not> isinstance child ''ImportFrom'' then Inr position
      else case vgetattr child ''module'' of Inl e \<Rightarrow> Inl e
        | Inr m \<Rightarrow>
            if m \<noteq> VStr ''__future__'' then Inr position
            else if rest = [] then Inr position
            else module_position rest (Suc position))"

definition visit_Module :: "node comp \<Rightarrow> val comp" where
  "visit_Module ncv =
     bindM ncv (\<lambda>node.
     bindM (liftE (getattr node ''body'')) (\<lambda>bv.
     bindM (liftE (as_list bv)) (\<lambda>body.
     bindM (liftE (module_position body 0)) (\<lambda>position.
     bindM (inject_print_collector node position) (\<lambda>node'.
     returnM (VNode node'))))))"

section \<open>The dispatcher and the walk\<close>

text \<open>
  The kinds for which the class defines a method \<^verbatim>\<open>visit_\<close>\<open>Kind\<close>: those whose
  method only walks the contents of the node, those whose method only calls
  \<^verbatim>\<open>not_allowed\<close>, and the seventeen with a method of their own.
\<close>

definition pass_kinds :: "string list" where
  "pass_kinds = [''Num'', ''Str'', ''Bytes'', ''List'', ''Tuple'', ''Set'', ''Dict'',
     ''NameConstant'', ''Load'', ''Store'', ''Del'', ''Starred'', ''Expression'', ''Expr'',
     ''UnaryOp'', ''UAdd'', ''USub'', ''Not'', ''Invert'', ''BinOp'', ''Add'', ''Sub'', ''Mult'',
     ''Div'', ''FloorDiv'', ''Mod'', ''Pow'', ''LShift'', ''RShift'', ''BitOr'', ''BitXor'',
     ''BitAnd'', ''BoolOp'', ''And'', ''Or'', ''Compare'', ''Eq'', ''NotEq'', ''Lt'', ''LtE'',
     ''Gt'', ''GtE'', ''Is'', ''IsNot'', ''In'', ''NotIn'', ''keyword'', ''IfExp'', ''Index'',
     ''Slice'', ''ExtSlice'', ''ListComp'', ''SetComp'', ''GeneratorExp'', ''DictComp'',
     ''Raise'', ''Assert'', ''Delete'', ''Pass'', ''alias'', ''If'', ''While'', ''Break'',
     ''Continue'', ''Try'', ''TryFinally'', ''TryExcept'', ''withitem'', ''arguments'', ''arg'',
     ''Return'', ''Global'', ''Param'']"

definition denied_kinds :: "string list" where
  "denied_kinds = [''Ellipsis'', ''MatMult'', ''Exec'', ''Yield'', ''YieldFrom'', ''Nonlocal'',
     ''AsyncFunctionDef'', ''Await'', ''AsyncFor'', ''AsyncWith'']"

definition rewriting_kinds :: "string list" where
  "rewriting_kinds = [''Name'', ''Call'', ''Attribute'', ''Subscript'', ''comprehension'',
     ''Assign'', ''AugAssign'', ''Print'', ''Import'', ''ImportFrom'', ''ExceptHandler'', ''For'',
     ''With'', ''FunctionDef'', ''Lambda'', ''ClassDef'', ''Module'']"

definition has_visit_method :: "string \<Rightarrow> bool" where
  "has_visit_method k = (k \<in> set pass_kinds \<or> k \<in> set denied_kinds \<or> k \<in> set rewriting_kinds)"

text \<open>
  \<^verbatim>\<open>NodeVisitor.visit\<close> of the standard library looks up the method
  \<^verbatim>\<open>'visit_' + node.__class__.__name__\<close> and falls back to \<^verbatim>\<open>self.generic_visit\<close>,
  which the transformer overrides. \<open>visitor\<close> is the method found, applied to the
  node.
\<close>

definition visitor :: "compat \<Rightarrow> node comp \<Rightarrow> node \<Rightarrow> val comp" where
  "visitor cfg ncv node =
     (let k = cls node in
      if k \<in> set pass_kinds then bindM ncv (\<lambda>node'. returnM (VNode node'))
      else if k \<in> set denied_kinds then bindM (not_allowed node) (\<lambda>_. returnM VNone)
      else if k = ''Name'' then visit_Name ncv
      else if k = ''Call'' then visit_Call cfg ncv node
      else if k = ''Attribute'' then visit_Attribute ncv node
      else if k = ''Subscript'' then visit_Subscript cfg ncv
      else if k = ''comprehension'' then guard_iter cfg ncv
      else if k = ''For'' then guard_iter cfg ncv
      else if k = ''Assign'' then visit_Assign cfg ncv
      else if k = ''AugAssign'' then visit_AugAssign cfg ncv
      else if k = ''Print'' then visit_Print ncv node
      else if k = ''Import'' then check_import_names ncv node
      else if k = ''ImportFrom'' then check_import_names ncv node
      else if k = ''ExceptHandler'' then visit_ExceptHandler cfg ncv
      else if k = ''With'' then visit_With cfg ncv
      else if k = ''FunctionDef'' then visit_FunctionDef cfg ncv node
      else if k = ''Lambda'' then visit_Lambda cfg ncv node
      else if k = ''ClassDef'' then visit_ClassDef cfg ncv node
      else if k = ''Module'' then visit_Module ncv
      else generic_visit node)"

text \<open>
  The walk is \<^verbatim>\<open>ast.NodeTransformer.generic_visit\<close> of the standard library, which
  \<^verbatim>\<open>node_contents_visit\<close> calls. It goes through the fields of the node in order.
  In a field that holds a list every node of the list is visited: a result
  \<^verbatim>\<open>None\<close> drops the node from the list, a node replaces it, a list of results is
  spliced in; what is no node stays. A field that holds a node is visited: for the
  result \<^verbatim>\<open>None\<close> the attribute is deleted, any other result is stored in the
  attribute. Other fields are left alone.

  \<open>visit\<close> is \<^verbatim>\<open>NodeVisitor.visit\<close>, \<open>visit_fields\<close> the loop over the fields and
  \<open>visit_values\<close> the loop over a list.
\<close>

fun visit :: "compat \<Rightarrow> node \<Rightarrow> val comp"
and visit_fields :: "compat \<Rightarrow> (string \<times> val) list \<Rightarrow> ((string \<times> val) list) comp"
and visit_values :: "compat \<Rightarrow> val list \<Rightarrow> (val list) comp"
where
  "visit cfg (Node k fs l) st =
     visitor cfg
       (\<lambda>s. case visit_fields cfg fs s of Inl e \<Rightarrow> Inl e
             | Inr (fs', s') \<Rightarrow> Inr (Node k fs' l, s'))
       (Node k fs l) st"
| "visit_fields cfg [] st = Inr ([], st)"
| "visit_fields cfg ((f, VList old_value) # rest) st =
     (case visit_values cfg old_value st of Inl e \<Rightarrow> Inl e
      | Inr (new_values, st1) \<Rightarrow>
        (case visit_fields cfg rest st1 of Inl e \<Rightarrow> Inl e
         | Inr (rest', st2) \<Rightarrow> Inr ((f, VList new_values) # rest', st2)))"
| "visit_fields cfg ((f, VNode old_value) # rest) st =
     (case visit cfg old_value st of Inl e \<Rightarrow> Inl e
      | Inr (new_node, st1) \<Rightarrow>
        (case visit_fields cfg rest st1 of Inl e \<Rightarrow> Inl e
         | Inr (rest', st2) \<Rightarrow>
             Inr (if new_node = VNone then rest' else (f, new_node) # rest', st2)))"
| "visit_fields cfg ((f, v) # rest) st =
     (case visit_fields cfg rest st of Inl e \<Rightarrow> Inl e
      | Inr (rest', st2) \<Rightarrow> Inr ((f, v) # rest', st2))"
| "visit_values cfg [] st = Inr ([], st)"
| "visit_values cfg (VNode n # rest) st =
     (case visit cfg n st of Inl e \<Rightarrow> Inl e
      | Inr (r, st1) \<Rightarrow>
        (case r of
           VNone \<Rightarrow> visit_values cfg rest st1
         | VNode m \<Rightarrow>
             (case visit_values cfg rest st1 of Inl e \<Rightarrow> Inl e
              | Inr (rest', st2) \<Rightarrow> Inr (VNode m # rest', st2))
         | VList ms \<Rightarrow>
             (case visit_values cfg rest st1 of Inl e \<Rightarrow> Inl e
              | Inr (rest', st2) \<Rightarrow> Inr (ms @ rest', st2))
         | _ \<Rightarrow> Inl TypeError))"
| "visit_values cfg (v # rest) st =
     (case visit_values cfg rest st of Inl e \<Rightarrow> Inl e
      | Inr (rest', st2) \<Rightarrow> Inr (v # rest', st2))"

text \<open>\<^verbatim>\<open>node_contents_visit(node)\<close>, the walk over the contents of a node.\<close>

definition node_contents_visit :: "compat \<Rightarrow> node \<Rightarrow> node comp" where
  "node_contents_visit cfg node = (\<lambda>s.
     case visit_fields cfg (flds node) s of Inl e \<Rightarrow> Inl e
     | Inr (fs', s') \<Rightarrow> Inr (Node (cls node) fs' (lineno node), s'))"

text \<open>A node as the parser gives it, with its line: for writing down input trees.\<close>

definition at_line :: "nat \<Rightarrow> node \<Rightarrow> node" where
  "at_line l node = Node (cls node) (flds node) (Some l)"

text \<open>Two settings of the version switches, for the examples: Python 3.6 and Python 2.7.\<close>

definition python36 :: compat where
  "python36 = \<lparr>IS_PY2 = False, IS_PY3 = True, IS_PY34_OR_GREATER = True,
     IS_PY35_OR_GREATER = True\<rparr>"

definition python27 :: compat where
  "python27 = \<lparr>IS_PY2 = True, IS_PY3 = False, IS_PY34_OR_GREATER = False,
     IS_PY35_OR_GREATER = False\<rparr>"

subsection \<open>Counting nodes\<close>

text \<open>
  For statements about a whole tree: the number of nodes with a given property among
  the nodes that \<^verbatim>\<open>ast.walk\<close> finds (the node itself, the nodes in its fields and in
  the lists of its fields, and theirs), an attribute access in load context, a call of
  the name \<^verbatim>\<open>_getattr_\<close>, and the number of such calls in what the visit of a tree from
  the initial state returns, with the errors recorded.
\<close>

fun count_nodes :: "(node \<Rightarrow> bool) \<Rightarrow> node \<Rightarrow> nat"
and count_fields :: "(node \<Rightarrow> bool) \<Rightarrow> (string \<times> val) list \<Rightarrow> nat"
and count_items :: "(node \<Rightarrow> bool) \<Rightarrow> val list \<Rightarrow> nat"
where
  "count_nodes p (Node k fs l) = (if p (Node k fs l) then 1 else 0) + count_fields p fs"
| "count_fields p [] = 0"
| "count_fields p ((f, VNode n) # rest) = count_nodes p n + count_fields p rest"
| "count_fields p ((f, VList xs) # rest) = count_items p xs + count_fields p rest"
| "count_fields p ((f, v) # rest) = count_fields p rest"
| "count_items p [] = 0"
| "count_items p (VNode n # rest) = count_nodes p n + count_items p rest"
| "count_items p (v # rest) = count_items p rest"




section \<open>Properties\<close>

subsection \<open>The walk and the dispatcher\<close>

lemmas comp_defs = bindM_def returnM_def raiseM_def liftE_def modifyM_def whenM_def

lemma visit_eq_visitor: "visit cfg node st = visitor cfg (node_contents_visit cfg node) node st"
  by (cases node) (simp add: node_contents_visit_def cong: sum.case_cong)

declare visit.simps [simp del]


lemma visit_Store: "visit cfg (Node ''Store'' [] lc) st = Inr (VNode (Node ''Store'' [] lc), st)"
  by (simp add: visit.simps visitor_def pass_kinds_def comp_defs)

lemma visit_unknown:
  "\<not> has_visit_method (cls node) \<Longrightarrow>
   visit cfg node st = Inr (VNone,
     error node (cls node @ '' statements are not allowed.'')
       (warn node (cls node @ '' statement is not known to RestrictedPython'') st))"
  by (cases node)
     (simp add: visit.simps has_visit_method_def visitor_def rewriting_kinds_def generic_visit_def
        not_allowed_def comp_defs)

subsection \<open>The name policy\<close>


lemma error_neq: "error node info st \<noteq> st"
proof
  assume "error node info st = st"
  then have "errors (error node info st) = errors st" by simp
  then show False by (simp add: error_def)
qed

text \<open>
  Claim C5. \<^verbatim>\<open>check_name(node, name)\<close> records an error exactly when the name begins
  with an underscore and is not the single underscore, or ends with \<^verbatim>\<open>__roles__\<close>, or
  is \<^verbatim>\<open>print\<close>, or is \<^verbatim>\<open>printed\<close>: in these cases it returns with one error appended
  and nothing else changed, in all other cases it returns with the state as it was.
  For \<^verbatim>\<open>None\<close> it returns with the state as it was.
\<close>

theorem check_name_records_error_iff:
  "((\<exists>info. check_name node (VStr name) st = Inr ((), error node info st))
      = ((startswith name ''_'' \<and> name \<noteq> ''_'') \<or> endswith name ''__roles__''
           \<or> name = ''print'' \<or> name = ''printed''))
   \<and> ((check_name node (VStr name) st = Inr ((), st))
      = (\<not> ((startswith name ''_'' \<and> name \<noteq> ''_'') \<or> endswith name ''__roles__''
           \<or> name = ''print'' \<or> name = ''printed'')))
   \<and> check_name node VNone st = Inr ((), st)"
  by (auto simp: check_name_def modifyM_def returnM_def error_neq error_neq [symmetric])

theorem check_name_records_error_iff_witness:
  "(\<exists>info. check_name (Node ''Name'' [] (Some 3)) (VStr ''_x'') init_state
       = Inr ((), error (Node ''Name'' [] (Some 3)) info init_state))
   \<and> check_name (Node ''Name'' [] (Some 3)) (VStr ''_'') init_state = Inr ((), init_state)
   \<and> check_name (Node ''Name'' [] (Some 3)) VNone init_state = Inr ((), init_state)"
  using check_name_records_error_iff [of "Node ''Name'' [] (Some 3)" "''_x''" init_state]
    check_name_records_error_iff [of "Node ''Name'' [] (Some 3)" "''_''" init_state]
  by (simp add: startswith_def endswith_def)

subsection \<open>The default handler\<close>

text \<open>
  Claim C1, as the code has it. For a node whose kind has no \<^verbatim>\<open>visit_\<close> method the
  visit returns without an exception and without a replacement node, and it
  records exactly one warning and exactly one error and changes nothing else. The
  warning reads \<^verbatim>\<open>Line L: Kind statement is not known to RestrictedPython\<close> and the
  error \<^verbatim>\<open>Line L: Kind statements are not allowed.\<close>, where \<^verbatim>\<open>L\<close> is the line of the
  node (\<^verbatim>\<open>None\<close> if it has none) and \<^verbatim>\<open>Kind\<close> the name of its class.
\<close>

theorem generic_visit_records_warning_and_error:
  "\<not> has_visit_method (cls node) \<Longrightarrow>
   visit cfg node st = Inr (VNone,
     st\<lparr>warnings := warnings st @
           [''Line '' @ fmt_lineno (lineno node) @ '': '' @ cls node
              @ '' statement is not known to RestrictedPython''],
        errors := errors st @
           [''Line '' @ fmt_lineno (lineno node) @ '': '' @ cls node
              @ '' statements are not allowed.'']\<rparr>)"
  by (simp add: visit_unknown error_def warn_def line_info_def)

theorem generic_visit_records_warning_and_error_witness:
  "\<not> has_visit_method (cls (Node ''JoinedStr'' [(''values'', VList [])] (Some 1)))
   \<and> visit python36 (Node ''JoinedStr'' [(''values'', VList [])] (Some 1)) init_state
      = Inr (VNone, init_state\<lparr>
          warnings := [''Line 1: JoinedStr statement is not known to RestrictedPython''],
          errors := [''Line 1: JoinedStr statements are not allowed.'']\<rparr>)"
  using generic_visit_records_warning_and_error
    [of "Node ''JoinedStr'' [(''values'', VList [])] (Some 1)" python36 init_state]
  by (simp add: has_visit_method_def pass_kinds_def denied_kinds_def rewriting_kinds_def
        init_state_def fmt_lineno_def str_nat.simps digit_def)

text \<open>
  The claim as the specification words it fails on the text of the messages: for the
  f-string node of Python 3.6, which has no handler, the warning is not
  \<^verbatim>\<open>JoinedStr statement is not known\<close> and the error has a final full stop.
\<close>

theorem generic_visit_message_counterexample:
  "visit python36 (Node ''JoinedStr'' [(''values'', VList [])] (Some 1)) init_state
     = Inr (VNone, init_state\<lparr>
          warnings := [''Line 1: JoinedStr statement is not known to RestrictedPython''],
          errors := [''Line 1: JoinedStr statements are not allowed.'']\<rparr>)
   \<and> [''Line 1: JoinedStr statement is not known to RestrictedPython'']
        \<noteq> [''Line 1: JoinedStr statement is not known'']
   \<and> [''Line 1: JoinedStr statements are not allowed.'']
        \<noteq> [''Line 1: JoinedStr statements are not allowed'']"
  by code_simp



subsection \<open>Attribute access\<close>

lemma visitor_Attribute:
  "visitor cfg ncv (Node ''Attribute'' fs l) = visit_Attribute ncv (Node ''Attribute'' fs l)"
  by (simp add: visitor_def pass_kinds_def denied_kinds_def)






lemma check_attr_name_underscore: "check_attr_name node ''_'' st = st"
  by (simp add: check_attr_name_def startswith_def endswith_def)

lemma visit_Attribute_state:
  assumes "visit_Attribute ncv node st = Inr (r, st')"
    and "getattr node ''attr'' = Inr (VStr a)"
  shows "\<exists>node'. ncv (check_attr_name node a st) = Inr (node', st')"
  using assms
  by (auto simp: visit_Attribute_def comp_defs as_str_def split: sum.splits if_splits prod.splits)

text \<open>
  Claim C9, as the code has it. The first check of \<^verbatim>\<open>visit_Attribute\<close> has the same
  exemption as \<^verbatim>\<open>check_name\<close>: for the attribute name \<^verbatim>\<open>_\<close> the handler records
  nothing, in any context. Whenever the visit of \<^verbatim>\<open>obj._\<close> returns, its state is the
  state that the walk over the children gives from the state before the visit. For a
  longer name that begins with an underscore (and does not end with \<^verbatim>\<open>__roles__\<close>)
  the walk starts from the state with the error
  \<^verbatim>\<open>"name" is an invalid attribute name because it starts with "_".\<close> added.
\<close>

theorem attribute_underscore_exempt:
  "(map_of fs ''attr'' = Some (VStr ''_'')
      \<longrightarrow> visit cfg (Node ''Attribute'' fs l) st = Inr (r, st')
      \<longrightarrow> (\<exists>node'. node_contents_visit cfg (Node ''Attribute'' fs l) st = Inr (node', st')))
   \<and> (map_of fs ''attr'' = Some (VStr a) \<longrightarrow> startswith a ''_'' \<longrightarrow> a \<noteq> ''_''
      \<longrightarrow> \<not> endswith a ''__roles__''
      \<longrightarrow> visit cfg (Node ''Attribute'' fs l) st = Inr (r, st')
      \<longrightarrow> (\<exists>node'. node_contents_visit cfg (Node ''Attribute'' fs l)
             (error (Node ''Attribute'' fs l)
                (''\"'' @ a @ ''\" is an invalid attribute name because it starts with \"_\".'') st)
           = Inr (node', st')))"
proof (intro conjI impI)
  assume a: "map_of fs ''attr'' = Some (VStr ''_'')"
    and v: "visit cfg (Node ''Attribute'' fs l) st = Inr (r, st')"
  from v have "visit_Attribute (node_contents_visit cfg (Node ''Attribute'' fs l))
      (Node ''Attribute'' fs l) st = Inr (r, st')"
    by (simp add: visit_eq_visitor visitor_Attribute)
  from visit_Attribute_state [OF this, of "''_''"] a
  show "\<exists>node'. node_contents_visit cfg (Node ''Attribute'' fs l) st = Inr (node', st')"
    by (simp add: getattr_def check_attr_name_underscore)
next
  assume a: "map_of fs ''attr'' = Some (VStr a)" and s: "startswith a ''_''" "a \<noteq> ''_''"
    "\<not> endswith a ''__roles__''"
    and v: "visit cfg (Node ''Attribute'' fs l) st = Inr (r, st')"
  from v have "visit_Attribute (node_contents_visit cfg (Node ''Attribute'' fs l))
      (Node ''Attribute'' fs l) st = Inr (r, st')"
    by (simp add: visit_eq_visitor visitor_Attribute)
  from visit_Attribute_state [OF this, of a] a s
  show "\<exists>node'. node_contents_visit cfg (Node ''Attribute'' fs l)
             (error (Node ''Attribute'' fs l)
                (''\"'' @ a @ ''\" is an invalid attribute name because it starts with \"_\".'') st)
           = Inr (node', st')"
    by (simp add: getattr_def check_attr_name_def)
qed

text \<open>
  The claim as stated fails for \<^verbatim>\<open>obj._\<close> in load context: the visit returns the
  call of \<^verbatim>\<open>_getattr_\<close> and the list of errors is empty.
\<close>

theorem attribute_underscore_counterexample:
  "visit python36
     (Node ''Attribute'' [(''value'', VNode (Node ''Name'' [(''id'', VStr ''obj''),
                              (''ctx'', VNode (Node ''Load'' [] None))] (Some 1))),
        (''attr'', VStr ''_''), (''ctx'', VNode (Node ''Load'' [] None))] (Some 1)) init_state
   = Inr (VNode (Node ''Call''
       [(''func'', VNode (Node ''Name'' [(''id'', VStr ''_getattr_''),
                             (''ctx'', VNode (Node ''Load'' [] None))] (Some 1))),
        (''args'', VList [VNode (Node ''Name'' [(''id'', VStr ''obj''),
                              (''ctx'', VNode (Node ''Load'' [] None))] (Some 1)),
                         VNode (Node ''Str'' [(''s'', VStr ''_'')] (Some 1))]),
        (''keywords'', VList [])] (Some 1)),
      init_state\<lparr>used_names := [(VStr ''obj'', True)]\<rparr>)
   \<and> errors (init_state\<lparr>used_names := [(VStr ''obj'', True)]\<rparr>) = []"
  by code_simp

theorem attribute_underscore_exempt_witness:
  "(\<exists>node'. node_contents_visit python36
     (Node ''Attribute'' [(''value'', VNode (Node ''Name'' [(''id'', VStr ''obj''),
                              (''ctx'', VNode (Node ''Load'' [] None))] (Some 1))),
        (''attr'', VStr ''_''), (''ctx'', VNode (Node ''Load'' [] None))] (Some 1)) init_state
     = Inr (node', init_state\<lparr>used_names := [(VStr ''obj'', True)]\<rparr>))
   \<and> (\<exists>node'. node_contents_visit python36
     (Node ''Attribute'' [(''value'', VNode (Node ''Name'' [(''id'', VStr ''obj''),
                              (''ctx'', VNode (Node ''Load'' [] None))] (Some 1))),
        (''attr'', VStr ''_x''), (''ctx'', VNode (Node ''Load'' [] None))] (Some 1))
       (init_state\<lparr>errors :=
          [''Line 1: \"_x\" is an invalid attribute name because it starts with \"_\".'']\<rparr>)
     = Inr (node', init_state\<lparr>errors :=
          [''Line 1: \"_x\" is an invalid attribute name because it starts with \"_\".''],
          used_names := [(VStr ''obj'', True)]\<rparr>))"
proof -
  let ?v = "VNode (Node ''Name'' [(''id'', VStr ''obj''),
                              (''ctx'', VNode (Node ''Load'' [] None))] (Some 1))"
  let ?r = "\<lambda>a. VNode (Node ''Call''
       [(''func'', VNode (Node ''Name'' [(''id'', VStr ''_getattr_''),
                             (''ctx'', VNode (Node ''Load'' [] None))] (Some 1))),
        (''args'', VList [?v, VNode (Node ''Str'' [(''s'', VStr a)] (Some 1))]),
        (''keywords'', VList [])] (Some 1))"
  have 1: "visit python36 (Node ''Attribute'' [(''value'', ?v),
        (''attr'', VStr ''_''), (''ctx'', VNode (Node ''Load'' [] None))] (Some 1)) init_state
      = Inr (?r ''_'', init_state\<lparr>used_names := [(VStr ''obj'', True)]\<rparr>)"
    by code_simp
  have 2: "visit python36 (Node ''Attribute'' [(''value'', ?v),
        (''attr'', VStr ''_x''), (''ctx'', VNode (Node ''Load'' [] None))] (Some 1)) init_state
      = Inr (?r ''_x'', init_state\<lparr>errors :=
          [''Line 1: \"_x\" is an invalid attribute name because it starts with \"_\".''],
          used_names := [(VStr ''obj'', True)]\<rparr>)"
    by code_simp
  from attribute_underscore_exempt [of "[(''value'', ?v),
        (''attr'', VStr ''_''), (''ctx'', VNode (Node ''Load'' [] None))]" python36 "Some 1"
        init_state "?r ''_''" "init_state\<lparr>used_names := [(VStr ''obj'', True)]\<rparr>"] 1
  have a: "\<exists>node'. node_contents_visit python36
     (Node ''Attribute'' [(''value'', ?v),
        (''attr'', VStr ''_''), (''ctx'', VNode (Node ''Load'' [] None))] (Some 1)) init_state
     = Inr (node', init_state\<lparr>used_names := [(VStr ''obj'', True)]\<rparr>)"
    by simp
  from attribute_underscore_exempt [of "[(''value'', ?v),
        (''attr'', VStr ''_x''), (''ctx'', VNode (Node ''Load'' [] None))]" python36 "Some 1"
        init_state "?r ''_x''" "init_state\<lparr>errors :=
          [''Line 1: \"_x\" is an invalid attribute name because it starts with \"_\".''],
          used_names := [(VStr ''obj'', True)]\<rparr>" "''_x''"] 2
  have b: "\<exists>node'. node_contents_visit python36
     (Node ''Attribute'' [(''value'', ?v),
        (''attr'', VStr ''_x''), (''ctx'', VNode (Node ''Load'' [] None))] (Some 1))
       (init_state\<lparr>errors :=
          [''Line 1: \"_x\" is an invalid attribute name because it starts with \"_\".'']\<rparr>)
     = Inr (node', init_state\<lparr>errors :=
          [''Line 1: \"_x\" is an invalid attribute name because it starts with \"_\".''],
          used_names := [(VStr ''obj'', True)]\<rparr>)"
    by (simp add: startswith_def endswith_def error_def line_info_def fmt_lineno_def
          str_nat.simps digit_def init_state_def)
  from a b show ?thesis by blast
qed

subsection \<open>Subscripts\<close>

lemma visitor_Subscript:
  "visitor cfg ncv (Node ''Subscript'' fs l) = visit_Subscript cfg ncv"
  by (simp add: visitor_def pass_kinds_def denied_kinds_def)






subsection \<open>Augmented assignment\<close>

lemma visitor_AugAssign:
  "visitor cfg ncv (Node ''AugAssign'' fs l) = visit_AugAssign cfg ncv"
  by (simp add: visitor_def pass_kinds_def denied_kinds_def)

lemma visitor_Name:
  "visitor cfg ncv (Node ''Name'' fs l) = visit_Name ncv"
  by (simp add: visitor_def pass_kinds_def denied_kinds_def)

lemma visit_Name_Store:
  assumes "check_name (Node ''Name'' [(''id'', VStr x), (''ctx'', VNode (Node ''Store'' [] lc))] lt)
             (VStr x) st = Inr ((), st1)"
  shows "visit cfg (Node ''Name'' [(''id'', VStr x), (''ctx'', VNode (Node ''Store'' [] lc))] lt) st
       = Inr (VNode (Node ''Name'' [(''id'', VStr x), (''ctx'', VNode (Node ''Store'' [] lc))] lt),
              st1)"
proof -
  have walk: "node_contents_visit cfg
      (Node ''Name'' [(''id'', VStr x), (''ctx'', VNode (Node ''Store'' [] lc))] lt) st
    = Inr (Node ''Name'' [(''id'', VStr x), (''ctx'', VNode (Node ''Store'' [] lc))] lt, st)"
    by (simp add: node_contents_visit_def visit_Store)
  show ?thesis
    using assms
    by (simp add: visit_eq_visitor visitor_Name visit_Name_def walk comp_defs getattr_def
          isinstance_def)
qed

lemma ioperator_pass_kind:
  "map_of (IOPERATOR_TO_STR cfg) k = Some tok \<Longrightarrow> k \<noteq> ''MatMult'' \<Longrightarrow> k \<in> set pass_kinds"
  by (auto simp: IOPERATOR_TO_STR_def pass_kinds_def split: if_splits)

lemma visit_pass_leaf:
  "k \<in> set pass_kinds \<Longrightarrow> visit cfg (Node k [] lo) st = Inr (VNode (Node k [] lo), st)"
  by (simp add: visit.simps visitor_def comp_defs)

lemma augassign_name:
  assumes op: "map_of (IOPERATOR_TO_STR cfg) k = Some tok" "k \<noteq> ''MatMult''"
    and tgt: "check_name (Node ''Name'' [(''id'', VStr x), (''ctx'', VNode (Node ''Store'' [] lc))] lt)
             (VStr x) st = Inr ((), st1)"
    and val: "visit cfg e st1 = Inr (VNode e', st2)"
  shows "visit cfg
           (Node ''AugAssign''
              [(''target'', VNode (Node ''Name'' [(''id'', VStr x),
                                     (''ctx'', VNode (Node ''Store'' [] lc))] lt)),
               (''op'', VNode (Node k [] lo)), (''value'', VNode e)] (Some l)) st
         = Inr (VNode (Node ''Assign''
             [(''targets'', VList [VNode (fix_node l (Node ''Name'' [(''id'', VStr x),
                                     (''ctx'', VNode (Node ''Store'' [] lc))] lt))]),
              (''value'', VNode (Node ''Call''
                 [(''func'', VNode (Node ''Name'' [(''id'', VStr ''_inplacevar_''),
                                       (''ctx'', VNode (Node ''Load'' [] None))] (Some l))),
                  (''args'', VList [VNode (Node ''Str'' [(''s'', VStr tok)] (Some l)),
                     VNode (Node ''Name'' [(''id'', VStr x),
                              (''ctx'', VNode (Node ''Load'' [] None))] (Some l)),
                     VNode (fix_node l e')]),
                  (''keywords'', VList [])] (Some l)))] (Some l)), st2)"
proof -
  have walk: "node_contents_visit cfg
           (Node ''AugAssign''
              [(''target'', VNode (Node ''Name'' [(''id'', VStr x),
                                     (''ctx'', VNode (Node ''Store'' [] lc))] lt)),
               (''op'', VNode (Node k [] lo)), (''value'', VNode e)] (Some l)) st
       = Inr (Node ''AugAssign''
              [(''target'', VNode (Node ''Name'' [(''id'', VStr x),
                                     (''ctx'', VNode (Node ''Store'' [] lc))] lt)),
               (''op'', VNode (Node k [] lo)), (''value'', VNode e')] (Some l), st2)"
    using val
    by (simp add: node_contents_visit_def visit_Name_Store [OF tgt]
          visit_pass_leaf [OF ioperator_pass_kind [OF op]])
  show ?thesis
    by (simp add: visit_eq_visitor visitor_AugAssign visit_AugAssign_def bindM_def walk
          liftE_def returnM_def getattr_def vgetattr_def isinstance_def ioperator_to_str_def op
          copy_locations_def has_lineno_def unlocated_def fix_missing_locations_def
          mk_Call_def mk_Name_def mk_ctx_def mk_Str_def mk_Assign_def)
qed

lemma node_contents_visit_shape:
  "node_contents_visit cfg node st = Inr (node', st') \<Longrightarrow>
   cls node' = cls node \<and> lineno node' = lineno node"
  by (auto simp: node_contents_visit_def split: sum.splits)

lemma error_lineno: "lineno n = lineno m \<Longrightarrow> error n info st = error m info st"
  by (simp add: error_def line_info_def)

lemma visit_AugAssign_target:
  assumes "ncv st = Inr (node', st')" and "getattr node' ''target'' = Inr t"
  shows "isinstance t ''Attribute'' \<Longrightarrow>
           visit_AugAssign cfg ncv st
           = Inr (VNode node', error node' ''Augmented assignment of attributes is not allowed.'' st')"
    and "isinstance t ''Subscript'' \<Longrightarrow>
           visit_AugAssign cfg ncv st
           = Inr (VNode node', error node'
                ''Augmented assignment of object items and slices is not allowed.'' st')"
  using assms by (auto simp: visit_AugAssign_def comp_defs isinstance_def split: val.splits)

lemma isinstance_not_None: "isinstance r k \<Longrightarrow> r \<noteq> VNone"
  by (auto simp: isinstance_def)

lemma cls_setattr [simp]: "cls (setattr n f v) = cls n"
  by (simp add: setattr_def)

lemma visit_Attribute_Store_kind:
  assumes "visit cfg (Node ''Attribute'' fs lt) st = Inr (r, st')"
    and "map_of fs ''ctx'' = Some (VNode (Node ''Store'' [] lc))"
  shows "isinstance r ''Attribute''"
proof -
  from assms(1) have "visit_Attribute (node_contents_visit cfg (Node ''Attribute'' fs lt))
      (Node ''Attribute'' fs lt) st = Inr (r, st')"
    by (simp add: visit_eq_visitor visitor_Attribute)
  with assms(2) show ?thesis
    by (auto simp: visit_Attribute_def comp_defs getattr_def isinstance_def
          split: sum.splits option.splits prod.splits if_splits
          dest!: node_contents_visit_shape)
qed

lemma walk_Subscript_Store:
  assumes "node_contents_visit cfg (Node ''Subscript'' [(''value'', tv), (''slice'', sl),
              (''ctx'', VNode (Node ''Store'' [] lc))] lt) st = Inr (node', st')"
  shows "getattr node' ''ctx'' = Inr (VNode (Node ''Store'' [] lc))"
  using assms
  by (cases tv; cases sl)
     (auto simp: node_contents_visit_def visit_Store getattr_def split: sum.splits if_splits)

lemma visit_Subscript_Store_kind:
  assumes "visit cfg (Node ''Subscript'' [(''value'', tv), (''slice'', sl),
              (''ctx'', VNode (Node ''Store'' [] lc))] lt) st = Inr (r, st')"
  shows "isinstance r ''Subscript''"
proof -
  let ?n = "Node ''Subscript'' [(''value'', tv), (''slice'', sl),
              (''ctx'', VNode (Node ''Store'' [] lc))] lt"
  from assms have v: "visit_Subscript cfg (node_contents_visit cfg ?n) st = Inr (r, st')"
    by (simp add: visit_eq_visitor visitor_Subscript)
  then obtain node' s1 where w: "node_contents_visit cfg ?n st = Inr (node', s1)"
    by (auto simp: visit_Subscript_def bindM_def split: sum.splits)
  from walk_Subscript_Store [OF w] node_contents_visit_shape [OF w] v w show ?thesis
    by (auto simp: visit_Subscript_def comp_defs isinstance_def split: sum.splits)
qed

lemma walk_target:
  assumes "node_contents_visit cfg (Node k ((''target'', VNode t) # rest) l) st = Inr (node', st')"
    and "\<And>r s. visit cfg t st = Inr (r, s) \<Longrightarrow> isinstance r kind"
  shows "\<exists>r. getattr node' ''target'' = Inr r \<and> isinstance r kind"
proof -
  from assms(1) obtain r s where v: "visit cfg t st = Inr (r, s)"
    by (auto simp: node_contents_visit_def split: sum.splits)
  from assms(2) [OF v] have i: "isinstance r kind" .
  then have "r \<noteq> VNone" by (rule isinstance_not_None)
  with assms(1) v i show ?thesis
    by (auto simp: node_contents_visit_def getattr_def split: sum.splits)
qed

text \<open>
  What \<^verbatim>\<open>visit_AugAssign\<close> does where it returns. (1) An augmented assignment to a name,
  \<^verbatim>\<open>x op= e\<close> on line \<^verbatim>\<open>l\<close>, with an operator of the table other than \<^verbatim>\<open>@\<close> and a
  value that the visit turns into the node \<open>e'\<close>, is visited to the assignment
  \<^verbatim>\<open>x = _inplacevar_("op=", x, e')\<close>, where \<^verbatim>\<open>"op="\<close> is the entry of
  \<^verbatim>\<open>IOPERATOR_TO_STR\<close>; the state is the one after \<^verbatim>\<open>check_name\<close> on the target and
  the visit of the value. (2) If the target is an attribute in store context and the
  walk over the children returns, the visit returns the statement itself (its
  children visited) and appends the error
  \<^verbatim>\<open>Line L: Augmented assignment of attributes is not allowed.\<close> (3) The same for a
  subscript target, with the error
  \<^verbatim>\<open>Line L: Augmented assignment of object items and slices is not allowed.\<close>
\<close>

lemma augassign_rewritten:
  "(map_of (IOPERATOR_TO_STR cfg) k = Some tok \<longrightarrow> k \<noteq> ''MatMult'' \<longrightarrow>
    check_name (Node ''Name'' [(''id'', VStr x), (''ctx'', VNode (Node ''Store'' [] lc))] lt)
      (VStr x) st = Inr ((), st1) \<longrightarrow>
    visit cfg e st1 = Inr (VNode e', st2) \<longrightarrow>
    visit cfg
      (Node ''AugAssign''
         [(''target'', VNode (Node ''Name'' [(''id'', VStr x),
                                (''ctx'', VNode (Node ''Store'' [] lc))] lt)),
          (''op'', VNode (Node k [] lo)), (''value'', VNode e)] (Some l)) st
    = Inr (VNode (Node ''Assign''
        [(''targets'', VList [VNode (fix_node l (Node ''Name'' [(''id'', VStr x),
                                (''ctx'', VNode (Node ''Store'' [] lc))] lt))]),
         (''value'', VNode (Node ''Call''
            [(''func'', VNode (Node ''Name'' [(''id'', VStr ''_inplacevar_''),
                                  (''ctx'', VNode (Node ''Load'' [] None))] (Some l))),
             (''args'', VList [VNode (Node ''Str'' [(''s'', VStr tok)] (Some l)),
                VNode (Node ''Name'' [(''id'', VStr x),
                         (''ctx'', VNode (Node ''Load'' [] None))] (Some l)),
                VNode (fix_node l e')]),
             (''keywords'', VList [])] (Some l)))] (Some l)), st2))
   \<and> (map_of tfs ''ctx'' = Some (VNode (Node ''Store'' [] lc)) \<longrightarrow>
      node_contents_visit cfg
        (Node ''AugAssign'' ((''target'', VNode (Node ''Attribute'' tfs lt)) # rest) l') st
      = Inr (node', st') \<longrightarrow>
      visit cfg (Node ''AugAssign'' ((''target'', VNode (Node ''Attribute'' tfs lt)) # rest) l') st
      = Inr (VNode node',
          st'\<lparr>errors := errors st' @ [''Line '' @ fmt_lineno l'
             @ '': Augmented assignment of attributes is not allowed.'']\<rparr>))
   \<and> (node_contents_visit cfg
        (Node ''AugAssign'' ((''target'', VNode (Node ''Subscript''
            [(''value'', tv), (''slice'', sl), (''ctx'', VNode (Node ''Store'' [] lc))] lt))
          # rest) l') st
      = Inr (node', st') \<longrightarrow>
      visit cfg (Node ''AugAssign'' ((''target'', VNode (Node ''Subscript''
            [(''value'', tv), (''slice'', sl), (''ctx'', VNode (Node ''Store'' [] lc))] lt))
          # rest) l') st
      = Inr (VNode node',
          st'\<lparr>errors := errors st' @ [''Line '' @ fmt_lineno l'
             @ '': Augmented assignment of object items and slices is not allowed.'']\<rparr>))"
proof (intro conjI impI)
  assume "map_of (IOPERATOR_TO_STR cfg) k = Some tok" "k \<noteq> ''MatMult''"
    "check_name (Node ''Name'' [(''id'', VStr x), (''ctx'', VNode (Node ''Store'' [] lc))] lt)
      (VStr x) st = Inr ((), st1)"
    "visit cfg e st1 = Inr (VNode e', st2)"
  then show "visit cfg
      (Node ''AugAssign''
         [(''target'', VNode (Node ''Name'' [(''id'', VStr x),
                                (''ctx'', VNode (Node ''Store'' [] lc))] lt)),
          (''op'', VNode (Node k [] lo)), (''value'', VNode e)] (Some l)) st
    = Inr (VNode (Node ''Assign''
        [(''targets'', VList [VNode (fix_node l (Node ''Name'' [(''id'', VStr x),
                                (''ctx'', VNode (Node ''Store'' [] lc))] lt))]),
         (''value'', VNode (Node ''Call''
            [(''func'', VNode (Node ''Name'' [(''id'', VStr ''_inplacevar_''),
                                  (''ctx'', VNode (Node ''Load'' [] None))] (Some l))),
             (''args'', VList [VNode (Node ''Str'' [(''s'', VStr tok)] (Some l)),
                VNode (Node ''Name'' [(''id'', VStr x),
                         (''ctx'', VNode (Node ''Load'' [] None))] (Some l)),
                VNode (fix_node l e')]),
             (''keywords'', VList [])] (Some l)))] (Some l)), st2)"
    by (rule augassign_name)
next
  let ?n = "Node ''AugAssign'' ((''target'', VNode (Node ''Attribute'' tfs lt)) # rest) l'"
  assume c: "map_of tfs ''ctx'' = Some (VNode (Node ''Store'' [] lc))"
    and w: "node_contents_visit cfg ?n st = Inr (node', st')"
  from walk_target [OF w, of "''Attribute''"] visit_Attribute_Store_kind [OF _ c]
  obtain r where r: "getattr node' ''target'' = Inr r" "isinstance r ''Attribute''"
    by blast
  from visit_AugAssign_target(1) [where ncv = "node_contents_visit cfg ?n", OF w r] node_contents_visit_shape [OF w]
  show "visit cfg ?n st = Inr (VNode node',
          st'\<lparr>errors := errors st' @ [''Line '' @ fmt_lineno l'
             @ '': Augmented assignment of attributes is not allowed.'']\<rparr>)"
    by (simp add: visit_eq_visitor visitor_AugAssign error_def line_info_def)
next
  let ?n = "Node ''AugAssign'' ((''target'', VNode (Node ''Subscript''
            [(''value'', tv), (''slice'', sl), (''ctx'', VNode (Node ''Store'' [] lc))] lt))
          # rest) l'"
  assume w: "node_contents_visit cfg ?n st = Inr (node', st')"
  from walk_target [OF w, of "''Subscript''"] visit_Subscript_Store_kind
  obtain r where r: "getattr node' ''target'' = Inr r" "isinstance r ''Subscript''"
    by blast
  from visit_AugAssign_target(2) [where ncv = "node_contents_visit cfg ?n", OF w r] node_contents_visit_shape [OF w]
  show "visit cfg ?n st = Inr (VNode node',
          st'\<lparr>errors := errors st' @ [''Line '' @ fmt_lineno l'
             @ '': Augmented assignment of object items and slices is not allowed.'']\<rparr>)"
    by (simp add: visit_eq_visitor visitor_AugAssign error_def line_info_def)
qed

lemma augassign_rewritten_witness:
  "visit python36
     (Node ''AugAssign''
        [(''target'', VNode (at_line 1 (mk_Name (VStr ''n'') ''Store''))),
         (''op'', VNode (Node ''Add'' [] None)),
         (''value'', VNode (at_line 1 (mk_Num 1)))] (Some 1)) init_state
   = Inr (VNode (at_line 1 (mk_Assign [VNode (at_line 1 (mk_Name (VStr ''n'') ''Store''))]
        (VNode (at_line 1 (mk_Call (VNode (at_line 1 (mk_Name (VStr ''_inplacevar_'') ''Load'')))
           [VNode (at_line 1 (mk_Str (VStr ''+=''))),
            VNode (at_line 1 (mk_Name (VStr ''n'') ''Load'')),
            VNode (at_line 1 (mk_Num 1))] []))))), init_state)
   \<and> visit python36
     (Node ''AugAssign''
        [(''target'', VNode (at_line 1 (mk_Attribute
             (VNode (at_line 1 (mk_Name (VStr ''a'') ''Load''))) (VStr ''b'') ''Store''))),
         (''op'', VNode (Node ''Add'' [] None)),
         (''value'', VNode (at_line 1 (mk_Num 1)))] (Some 1)) init_state
   = Inr (VNode (Node ''AugAssign''
        [(''target'', VNode (at_line 1 (mk_Attribute
             (VNode (at_line 1 (mk_Call (VNode (at_line 1 (mk_Name (VStr ''_write_'') ''Load'')))
                [VNode (at_line 1 (mk_Name (VStr ''a'') ''Load''))] [])))
             (VStr ''b'') ''Store''))),
         (''op'', VNode (Node ''Add'' [] None)),
         (''value'', VNode (at_line 1 (mk_Num 1)))] (Some 1)),
      init_state\<lparr>errors := [''Line 1: Augmented assignment of attributes is not allowed.''],
        used_names := [(VStr ''a'', True)]\<rparr>)
   \<and> visit python36
     (Node ''AugAssign''
        [(''target'', VNode (Node ''Subscript''
            [(''value'', VNode (at_line 1 (mk_Name (VStr ''a'') ''Load''))),
             (''slice'', VNode (Node ''Index'' [(''value'', VNode (at_line 1 (mk_Num 0)))] None)),
             (''ctx'', VNode (Node ''Store'' [] None))] (Some 1))),
         (''op'', VNode (Node ''Add'' [] None)),
         (''value'', VNode (at_line 1 (mk_Num 1)))] (Some 1)) init_state
   = Inr (VNode (Node ''AugAssign''
        [(''target'', VNode (Node ''Subscript''
            [(''value'', VNode (at_line 1 (mk_Call
                (VNode (at_line 1 (mk_Name (VStr ''_write_'') ''Load'')))
                [VNode (at_line 1 (mk_Name (VStr ''a'') ''Load''))] []))),
             (''slice'', VNode (Node ''Index'' [(''value'', VNode (at_line 1 (mk_Num 0)))] None)),
             (''ctx'', VNode (Node ''Store'' [] None))] (Some 1))),
         (''op'', VNode (Node ''Add'' [] None)),
         (''value'', VNode (at_line 1 (mk_Num 1)))] (Some 1)),
      init_state\<lparr>errors :=
          [''Line 1: Augmented assignment of object items and slices is not allowed.''],
        used_names := [(VStr ''a'', True)]\<rparr>)"
proof -
  have n1: "map_of (IOPERATOR_TO_STR python36) ''Add'' = Some ''+='' \<and> ''Add'' \<noteq> ''MatMult''
    \<and> check_name (Node ''Name'' [(''id'', VStr ''n''), (''ctx'', VNode (Node ''Store'' [] None))]
          (Some 1)) (VStr ''n'') init_state = Inr ((), init_state)
    \<and> visit python36 (Node ''Num'' [(''n'', VInt 1)] (Some 1)) init_state
        = Inr (VNode (Node ''Num'' [(''n'', VInt 1)] (Some 1)), init_state)"
    by code_simp
  have a1: "map_of [(''value'', VNode (at_line 1 (mk_Name (VStr ''a'') ''Load''))),
                (''attr'', VStr ''b''), (''ctx'', VNode (Node ''Store'' [] None))] ''ctx''
             = Some (VNode (Node ''Store'' [] None))
    \<and> node_contents_visit python36
     (Node ''AugAssign''
        ((''target'', VNode (Node ''Attribute''
             [(''value'', VNode (at_line 1 (mk_Name (VStr ''a'') ''Load''))),
              (''attr'', VStr ''b''), (''ctx'', VNode (Node ''Store'' [] None))] (Some 1)))
         # [(''op'', VNode (Node ''Add'' [] None)),
            (''value'', VNode (at_line 1 (mk_Num 1)))]) (Some 1)) init_state
     = Inr (Node ''AugAssign''
        [(''target'', VNode (at_line 1 (mk_Attribute
             (VNode (at_line 1 (mk_Call (VNode (at_line 1 (mk_Name (VStr ''_write_'') ''Load'')))
                [VNode (at_line 1 (mk_Name (VStr ''a'') ''Load''))] [])))
             (VStr ''b'') ''Store''))),
         (''op'', VNode (Node ''Add'' [] None)),
         (''value'', VNode (at_line 1 (mk_Num 1)))] (Some 1),
        init_state\<lparr>used_names := [(VStr ''a'', True)]\<rparr>)"
    by code_simp
  have s1: "node_contents_visit python36
     (Node ''AugAssign''
        ((''target'', VNode (Node ''Subscript''
            [(''value'', VNode (at_line 1 (mk_Name (VStr ''a'') ''Load''))),
             (''slice'', VNode (Node ''Index'' [(''value'', VNode (at_line 1 (mk_Num 0)))] None)),
             (''ctx'', VNode (Node ''Store'' [] None))] (Some 1)))
         # [(''op'', VNode (Node ''Add'' [] None)),
            (''value'', VNode (at_line 1 (mk_Num 1)))]) (Some 1)) init_state
     = Inr (Node ''AugAssign''
        [(''target'', VNode (Node ''Subscript''
            [(''value'', VNode (at_line 1 (mk_Call
                (VNode (at_line 1 (mk_Name (VStr ''_write_'') ''Load'')))
                [VNode (at_line 1 (mk_Name (VStr ''a'') ''Load''))] []))),
             (''slice'', VNode (Node ''Index'' [(''value'', VNode (at_line 1 (mk_Num 0)))] None)),
             (''ctx'', VNode (Node ''Store'' [] None))] (Some 1))),
         (''op'', VNode (Node ''Add'' [] None)),
         (''value'', VNode (at_line 1 (mk_Num 1)))] (Some 1),
        init_state\<lparr>used_names := [(VStr ''a'', True)]\<rparr>)"
    by code_simp
  from n1 augassign_rewritten [where cfg = python36 and st = init_state and lc = None
         and k = "''Add''" and tok = "''+=''" and x = "''n''"
         and lt = "Some 1" and ?st1.0 = init_state and e = "Node ''Num'' [(''n'', VInt 1)] (Some 1)"
         and e' = "Node ''Num'' [(''n'', VInt 1)] (Some 1)" and ?st2.0 = init_state
         and lo = None and l = 1, THEN conjunct1]
  have 1: "visit python36
     (Node ''AugAssign''
        [(''target'', VNode (at_line 1 (mk_Name (VStr ''n'') ''Store''))),
         (''op'', VNode (Node ''Add'' [] None)),
         (''value'', VNode (at_line 1 (mk_Num 1)))] (Some 1)) init_state
   = Inr (VNode (at_line 1 (mk_Assign [VNode (at_line 1 (mk_Name (VStr ''n'') ''Store''))]
        (VNode (at_line 1 (mk_Call (VNode (at_line 1 (mk_Name (VStr ''_inplacevar_'') ''Load'')))
           [VNode (at_line 1 (mk_Str (VStr ''+=''))),
            VNode (at_line 1 (mk_Name (VStr ''n'') ''Load'')),
            VNode (at_line 1 (mk_Num 1))] []))))), init_state)"
    by (simp add: at_line_def mk_Name_def mk_Num_def mk_Assign_def mk_Call_def mk_Str_def
          mk_ctx_def has_lineno_def unlocated_def)
  from a1 augassign_rewritten [where cfg = python36 and st = init_state and lc = None and
         tfs = "[(''value'', VNode (at_line 1 (mk_Name (VStr ''a'') ''Load''))),
                (''attr'', VStr ''b''), (''ctx'', VNode (Node ''Store'' [] None))]"
         and lt = "Some 1" and l' = "Some 1"
         and rest = "[(''op'', VNode (Node ''Add'' [] None)),
            (''value'', VNode (at_line 1 (mk_Num 1)))]", THEN conjunct2, THEN conjunct1]
  have 2: "visit python36
     (Node ''AugAssign''
        [(''target'', VNode (at_line 1 (mk_Attribute
             (VNode (at_line 1 (mk_Name (VStr ''a'') ''Load''))) (VStr ''b'') ''Store''))),
         (''op'', VNode (Node ''Add'' [] None)),
         (''value'', VNode (at_line 1 (mk_Num 1)))] (Some 1)) init_state
   = Inr (VNode (Node ''AugAssign''
        [(''target'', VNode (at_line 1 (mk_Attribute
             (VNode (at_line 1 (mk_Call (VNode (at_line 1 (mk_Name (VStr ''_write_'') ''Load'')))
                [VNode (at_line 1 (mk_Name (VStr ''a'') ''Load''))] [])))
             (VStr ''b'') ''Store''))),
         (''op'', VNode (Node ''Add'' [] None)),
         (''value'', VNode (at_line 1 (mk_Num 1)))] (Some 1)),
      init_state\<lparr>errors := [''Line 1: Augmented assignment of attributes is not allowed.''],
        used_names := [(VStr ''a'', True)]\<rparr>)"
    by (simp add: at_line_def mk_Attribute_def mk_ctx_def init_state_def fmt_lineno_def
          str_nat.simps digit_def)
  from s1 augassign_rewritten [where cfg = python36 and st = init_state and lc = None and
         tv = "VNode (at_line 1 (mk_Name (VStr ''a'') ''Load''))"
         and sl = "VNode (Node ''Index'' [(''value'', VNode (at_line 1 (mk_Num 0)))] None)"
         and lt = "Some 1" and l' = "Some 1"
         and rest = "[(''op'', VNode (Node ''Add'' [] None)),
            (''value'', VNode (at_line 1 (mk_Num 1)))]", THEN conjunct2, THEN conjunct2]
  have 3: "visit python36
     (Node ''AugAssign''
        [(''target'', VNode (Node ''Subscript''
            [(''value'', VNode (at_line 1 (mk_Name (VStr ''a'') ''Load''))),
             (''slice'', VNode (Node ''Index'' [(''value'', VNode (at_line 1 (mk_Num 0)))] None)),
             (''ctx'', VNode (Node ''Store'' [] None))] (Some 1))),
         (''op'', VNode (Node ''Add'' [] None)),
         (''value'', VNode (at_line 1 (mk_Num 1)))] (Some 1)) init_state
   = Inr (VNode (Node ''AugAssign''
        [(''target'', VNode (Node ''Subscript''
            [(''value'', VNode (at_line 1 (mk_Call
                (VNode (at_line 1 (mk_Name (VStr ''_write_'') ''Load'')))
                [VNode (at_line 1 (mk_Name (VStr ''a'') ''Load''))] []))),
             (''slice'', VNode (Node ''Index'' [(''value'', VNode (at_line 1 (mk_Num 0)))] None)),
             (''ctx'', VNode (Node ''Store'' [] None))] (Some 1))),
         (''op'', VNode (Node ''Add'' [] None)),
         (''value'', VNode (at_line 1 (mk_Num 1)))] (Some 1)),
      init_state\<lparr>errors :=
          [''Line 1: Augmented assignment of object items and slices is not allowed.''],
        used_names := [(VStr ''a'', True)]\<rparr>)"
    by (simp add: init_state_def fmt_lineno_def str_nat.simps digit_def)
  from 1 2 3 show ?thesis by blast
qed

text \<open>
  Claim C6. For a name target the claim promises the rewrite to
  \<^verbatim>\<open>target = _inplacevar_("op=", target, value)\<close> with the textual token of the
  operator, and from Python 3.5 on the table \<^verbatim>\<open>IOPERATOR_TO_STR\<close> has the token
  \<^verbatim>\<open>@=\<close> for \<^verbatim>\<open>MatMult\<close>. The code does not get to the rewrite of \<^verbatim>\<open>x @= y\<close>:
  \<^verbatim>\<open>visit_MatMult\<close> rejects the operator node, the walk deletes the attribute \<^verbatim>\<open>op\<close>
  of the statement, and the read of \<^verbatim>\<open>node.op\<close> in \<^verbatim>\<open>visit_AugAssign\<close> raises
  \<^verbatim>\<open>AttributeError\<close>, which nothing catches. The same statement with \<^verbatim>\<open>*\<close> is
  rewritten as the claim says.
\<close>

theorem augassign_matmult_raises:
  "map_of (IOPERATOR_TO_STR python36) ''MatMult'' = Some ''@=''
   \<and> visit python36
     (Node ''AugAssign''
        [(''target'', VNode (Node ''Name'' [(''id'', VStr ''x''),
                               (''ctx'', VNode (Node ''Store'' [] None))] (Some 1))),
         (''op'', VNode (Node ''MatMult'' [] None)),
         (''value'', VNode (Node ''Name'' [(''id'', VStr ''y''),
                               (''ctx'', VNode (Node ''Load'' [] None))] (Some 1)))] (Some 1))
     init_state
   = Inl AttributeError
   \<and> visit python36
     (Node ''AugAssign''
        [(''target'', VNode (Node ''Name'' [(''id'', VStr ''x''),
                               (''ctx'', VNode (Node ''Store'' [] None))] (Some 1))),
         (''op'', VNode (Node ''Mult'' [] None)),
         (''value'', VNode (Node ''Name'' [(''id'', VStr ''y''),
                               (''ctx'', VNode (Node ''Load'' [] None))] (Some 1)))] (Some 1))
     init_state
   = Inr (VNode (Node ''Assign''
        [(''targets'', VList [VNode (Node ''Name'' [(''id'', VStr ''x''),
                               (''ctx'', VNode (Node ''Store'' [] None))] (Some 1))]),
         (''value'', VNode (Node ''Call''
            [(''func'', VNode (Node ''Name'' [(''id'', VStr ''_inplacevar_''),
                                  (''ctx'', VNode (Node ''Load'' [] None))] (Some 1))),
             (''args'', VList [VNode (Node ''Str'' [(''s'', VStr ''*='')] (Some 1)),
                VNode (Node ''Name'' [(''id'', VStr ''x''),
                         (''ctx'', VNode (Node ''Load'' [] None))] (Some 1)),
                VNode (Node ''Name'' [(''id'', VStr ''y''),
                         (''ctx'', VNode (Node ''Load'' [] None))] (Some 1))]),
             (''keywords'', VList [])] (Some 1)))] (Some 1)),
      init_state\<lparr>used_names := [(VStr ''y'', True)]\<rparr>)"
  by code_simp

subsection \<open>The unpack spec\<close>

lemma gen_unpack_spec_returns:
  "tuple_ok cfg tpl \<Longrightarrow> \<exists>spec. gen_unpack_spec cfg tpl = Inr spec"
  "elts_ok cfg elts \<Longrightarrow> \<exists>childs. unpack_childs cfg m idx off elts = Inr childs"
proof (induction cfg tpl and cfg m idx off elts rule: gen_unpack_spec_unpack_childs.induct)
  case (1 cfg tpl)
  from "1.prems" obtain v elts where
    e: "getattr tpl ''elts'' = Inr v" "as_list v = Inr elts" "elts_ok cfg elts"
    by (auto simp: tuple_ok.simps [of cfg tpl] split: sum.splits)
  from "1.IH" [OF e(1) e(2) refl e(3)] obtain childs where
    "unpack_childs cfg (int (length (filter (\<lambda>ob. \<not> is_starred cfg ob) elts))) 0 0 elts
       = Inr childs"
    by blast
  with e show ?case
    by (simp add: gen_unpack_spec.simps [of cfg tpl] Let_def)
next
  case (2 cfg min_len idx offset)
  then show ?case by simp
next
  case (3 cfg min_len idx offset val rest)
  then show ?case
    by (cases val) (fastforce split: if_splits sum.splits)+
qed





text \<open>
  Claim C4, as the code has it. For every tuple target \<^verbatim>\<open>gen_unpack_spec\<close> returns a
  \<^verbatim>\<open>Dict\<close> node with exactly two keys, the strings \<^verbatim>\<open>'childs'\<close> and \<^verbatim>\<open>'min_len'\<close>, in
  this order; the values are the tuple of child records and the number.
\<close>

theorem gen_unpack_spec_keys:
  "tuple_ok cfg tpl \<Longrightarrow>
   \<exists>childs n. gen_unpack_spec cfg tpl
     = Inr (Node ''Dict''
         [(''keys'', VList [VNode (Node ''Str'' [(''s'', VStr ''childs'')] None),
                           VNode (Node ''Str'' [(''s'', VStr ''min_len'')] None)]),
          (''values'', VList [VNode (mk_Tuple childs ''Load''), VNode (mk_Num n)])] None)"
proof -
  assume "tuple_ok cfg tpl"
  from gen_unpack_spec_returns(1) [OF this] obtain spec where
    "gen_unpack_spec cfg tpl = Inr spec" by blast
  then show ?thesis
    by (auto simp: gen_unpack_spec.simps [of cfg tpl] Let_def mk_Dict_def mk_Str_def
          split: sum.splits)
qed

theorem gen_unpack_spec_keys_witness:
  "tuple_ok python36 (mk_Tuple [VNode (mk_Name (VStr ''a'') ''Store''),
                                VNode (mk_Name (VStr ''b'') ''Store'')] ''Store'')
   \<and> (\<exists>childs n. gen_unpack_spec python36
          (mk_Tuple [VNode (mk_Name (VStr ''a'') ''Store''),
                     VNode (mk_Name (VStr ''b'') ''Store'')] ''Store'')
     = Inr (Node ''Dict''
         [(''keys'', VList [VNode (Node ''Str'' [(''s'', VStr ''childs'')] None),
                           VNode (Node ''Str'' [(''s'', VStr ''min_len'')] None)]),
          (''values'', VList [VNode (mk_Tuple childs ''Load''), VNode (mk_Num n)])] None))"
proof -
  have h: "tuple_ok python36 (mk_Tuple [VNode (mk_Name (VStr ''a'') ''Store''),
                                VNode (mk_Name (VStr ''b'') ''Store'')] ''Store'')"
    by code_simp
  from gen_unpack_spec_keys [OF h] h show ?thesis by blast
qed

text \<open>
  The claim as stated fails on the first key: for the target \<^verbatim>\<open>(a, b)\<close> the keys are
  \<^verbatim>\<open>'childs'\<close> and \<^verbatim>\<open>'min_len'\<close>, not \<^verbatim>\<open>'children'\<close> and \<^verbatim>\<open>'min_len'\<close>.
\<close>

theorem gen_unpack_spec_keys_counterexample:
  "gen_unpack_spec python36
     (mk_Tuple [VNode (mk_Name (VStr ''a'') ''Store''),
                VNode (mk_Name (VStr ''b'') ''Store'')] ''Store'')
   = Inr (Node ''Dict''
       [(''keys'', VList [VNode (Node ''Str'' [(''s'', VStr ''childs'')] None),
                         VNode (Node ''Str'' [(''s'', VStr ''min_len'')] None)]),
        (''values'', VList [VNode (Node ''Tuple'' [(''elts'', VList []),
                                     (''ctx'', VNode (Node ''Load'' [] None))] None),
                           VNode (Node ''Num'' [(''n'', VInt 2)] None)])] None)
   \<and> [VStr ''childs'', VStr ''min_len''] \<noteq> [VStr ''children'', VStr ''min_len'']"
  by code_simp

subsection \<open>Assignment with several targets\<close>

lemma visitor_Assign:
  "visitor cfg ncv (Node ''Assign'' fs l) = visit_Assign cfg ncv"
  by (simp add: visitor_def pass_kinds_def denied_kinds_def)

lemma assign_three_names:
  assumes a: "check_name (Node ''Name'' [(''id'', VStr a), (''ctx'', VNode (Node ''Store'' [] ca))] la)
             (VStr a) st = Inr ((), sa)"
    and b: "check_name (Node ''Name'' [(''id'', VStr b), (''ctx'', VNode (Node ''Store'' [] cb))] lb)
             (VStr b) sa = Inr ((), sb)"
    and c: "check_name (Node ''Name'' [(''id'', VStr c), (''ctx'', VNode (Node ''Store'' [] cc))] lc)
             (VStr c) sb = Inr ((), sc)"
    and e: "visit cfg e sc = Inr (VNode e', s')"
  shows "visit cfg
      (Node ''Assign''
         [(''targets'', VList
            [VNode (Node ''Name'' [(''id'', VStr a), (''ctx'', VNode (Node ''Store'' [] ca))] la),
             VNode (Node ''Name'' [(''id'', VStr b), (''ctx'', VNode (Node ''Store'' [] cb))] lb),
             VNode (Node ''Name'' [(''id'', VStr c), (''ctx'', VNode (Node ''Store'' [] cc))] lc)]),
          (''value'', VNode e)] l) st
    = Inr (VNode (Node ''Assign''
         [(''targets'', VList
            [VNode (Node ''Name'' [(''id'', VStr a), (''ctx'', VNode (Node ''Store'' [] ca))] la),
             VNode (Node ''Name'' [(''id'', VStr b), (''ctx'', VNode (Node ''Store'' [] cb))] lb),
             VNode (Node ''Name'' [(''id'', VStr c), (''ctx'', VNode (Node ''Store'' [] cc))] lc)]),
          (''value'', VNode e')] l), s')"
proof -
  have walk: "node_contents_visit cfg
      (Node ''Assign''
         [(''targets'', VList
            [VNode (Node ''Name'' [(''id'', VStr a), (''ctx'', VNode (Node ''Store'' [] ca))] la),
             VNode (Node ''Name'' [(''id'', VStr b), (''ctx'', VNode (Node ''Store'' [] cb))] lb),
             VNode (Node ''Name'' [(''id'', VStr c), (''ctx'', VNode (Node ''Store'' [] cc))] lc)]),
          (''value'', VNode e)] l) st
    = Inr (Node ''Assign''
         [(''targets'', VList
            [VNode (Node ''Name'' [(''id'', VStr a), (''ctx'', VNode (Node ''Store'' [] ca))] la),
             VNode (Node ''Name'' [(''id'', VStr b), (''ctx'', VNode (Node ''Store'' [] cb))] lb),
             VNode (Node ''Name'' [(''id'', VStr c), (''ctx'', VNode (Node ''Store'' [] cc))] lc)]),
          (''value'', VNode e')] l, s')"
    using e
    by (simp add: node_contents_visit_def visit_Name_Store [OF a] visit_Name_Store [OF b]
          visit_Name_Store [OF c])
  show ?thesis
    by (simp add: visit_eq_visitor visitor_Assign visit_Assign_def bindM_def walk liftE_def
          returnM_def getattr_def as_list_def isinstance_def)
qed

lemma assign_targets_shape:
  "assign_targets cfg node ts = Inr ns \<Longrightarrow>
   map cls ns = map (\<lambda>t. ''Assign'') ts
   \<and> map (\<lambda>n. getattr n ''targets'') ns = map (\<lambda>t. Inr (VList [t])) ts"
proof (induction ts arbitrary: ns)
  case Nil
  then show ?case by simp
next
  case (Cons t ts)
  then show ?case
    by (auto simp: mk_Assign_def getattr_def split: sum.splits val.splits if_splits)
qed

lemma fix_fields_targets:
  "map_of fs k = Some (VList xs) \<Longrightarrow> map_of (fix_fields l fs) k = Some (VList (fix_items l xs))"
proof (induction fs)
  case Nil
  then show ?case by simp
next
  case (Cons p fs)
  obtain f v where p: "p = (f, v)" by (cases p)
  with Cons show ?case by (cases v) (auto split: if_splits)
qed

lemma copy_locations_all_shape:
  "copy_locations_all ns (VNode old) = Inr ms \<Longrightarrow> lineno old = Some l \<Longrightarrow>
   map cls ns = map (\<lambda>t. ''Assign'') ts \<Longrightarrow>
   map (\<lambda>n. getattr n ''targets'') ns = map (\<lambda>t. Inr (VList [t])) ts \<Longrightarrow>
   map cls ms = map (\<lambda>t. ''Assign'') ts
   \<and> map (\<lambda>n. getattr n ''targets'') ms = map (\<lambda>t. Inr (VList (fix_items l [t]))) ts"
proof (induction ns arbitrary: ms ts)
  case Nil
  then show ?case by auto
next
  case (Cons n ns)
  from Cons.prems(3) obtain t ts' where ts: "ts = t # ts'" by (cases ts) auto
  from Cons.prems(1) obtain m ms' where
    m: "copy_locations n (VNode old) = Inr m" and ms': "copy_locations_all ns (VNode old) = Inr ms'"
    and ms: "ms = m # ms'"
    by (auto split: sum.splits)
  from Cons.prems ts have n: "cls n = ''Assign''" "getattr n ''targets'' = Inr (VList [t])"
    by auto
  have fx: "\<And>fs. map_of fs ''targets'' = Some (VList [t]) \<Longrightarrow>
      map_of (fix_fields l fs) ''targets'' = Some (VList (fix_items l [t]))"
    by (rule fix_fields_targets)
  from m n Cons.prems(2) have "cls m = ''Assign''"
    and "getattr m ''targets'' = Inr (VList (fix_items l [t]))"
    by (auto simp: copy_locations_def fix_missing_locations_def has_lineno_def unlocated_def
          getattr_def fx split: if_splits option.splits)
  moreover from Cons.IH [OF ms' Cons.prems(2), of ts'] Cons.prems(3,4) ts
  have "map cls ms' = map (\<lambda>t. ''Assign'') ts'
   \<and> map (\<lambda>n. getattr n ''targets'') ms' = map (\<lambda>t. Inr (VList (fix_items l [t]))) ts'"
    by simp
  ultimately show ?case using ms ts by simp
qed

lemma copy_locations_all_lineno:
  "copy_locations_all ns (VNode old) = Inr ms \<Longrightarrow> ns \<noteq> [] \<Longrightarrow> \<exists>l. lineno old = Some l"
  by (cases ns) (auto simp: copy_locations_def split: sum.splits if_splits option.splits)

lemma assign_tuple_split:
  assumes k: "cls node = ''Assign''"
    and w: "node_contents_visit cfg node st = Inr (node', st')"
    and t: "getattr node' ''targets'' = Inr (VList ts)"
    and x: "list_ex (\<lambda>t. isinstance t ''Tuple'') ts"
    and v: "visit cfg node st = Inr (r, st'')"
  shows "st'' = st' \<and> (\<exists>ns l. lineno node = Some l \<and> r = VList (map VNode ns)
     \<and> map cls ns = map (\<lambda>t. ''Assign'') (rev ts)
     \<and> map (\<lambda>n. getattr n ''targets'') ns = map (\<lambda>t. Inr (VList (fix_items l [t]))) (rev ts))"
proof -
  from k v have "visit_Assign cfg (node_contents_visit cfg node) st = Inr (r, st'')"
    by (cases node) (simp add: visit_eq_visitor visitor_Assign)
  with w t x obtain ns ms where
    a: "assign_targets cfg node' (rev ts) = Inr ns"
    and c: "copy_locations_all ns (VNode node') = Inr ms"
    and r: "r = VList (map VNode ms)" and s: "st'' = st'"
    by (auto simp: visit_Assign_def comp_defs as_list_def split: sum.splits)
  from x have "ts \<noteq> []" by auto
  with assign_targets_shape [OF a] have "ns \<noteq> []" by auto
  from copy_locations_all_lineno [OF c this] obtain l where l: "lineno node' = Some l" by blast
  from assign_targets_shape [OF a] copy_locations_all_shape [OF c l, of "rev ts"]
  have "map cls ms = map (\<lambda>t. ''Assign'') (rev ts)
     \<and> map (\<lambda>n. getattr n ''targets'') ms = map (\<lambda>t. Inr (VList (fix_items l [t]))) (rev ts)"
    by simp
  with r s l node_contents_visit_shape [OF w] show ?thesis by auto
qed

text \<open>
  Claim C8, as the code has it. (1) The assignment \<^verbatim>\<open>a = b = c = expr\<close> with three
  plain names as targets is passed through as the one assignment statement it is: the
  visit returns a single \<^verbatim>\<open>Assign\<close> node with the three targets in their order and
  the transformed expression as value. (2) Separate assignments are emitted only if
  some target is a tuple: then, whenever the visit returns, it returns a list with
  one \<^verbatim>\<open>Assign\<close> node per target, each with that single target, in the reverse order
  of the targets (the right-most target first), and it changes the state no further
  than the walk over the children did.
\<close>

theorem assign_multi_target:
  "(check_name (Node ''Name'' [(''id'', VStr a), (''ctx'', VNode (Node ''Store'' [] ca))] la)
       (VStr a) st = Inr ((), sa) \<longrightarrow>
    check_name (Node ''Name'' [(''id'', VStr b), (''ctx'', VNode (Node ''Store'' [] cb))] lb)
       (VStr b) sa = Inr ((), sb) \<longrightarrow>
    check_name (Node ''Name'' [(''id'', VStr c), (''ctx'', VNode (Node ''Store'' [] cc))] lc)
       (VStr c) sb = Inr ((), sc) \<longrightarrow>
    visit cfg e sc = Inr (VNode e', s') \<longrightarrow>
    visit cfg
      (Node ''Assign''
         [(''targets'', VList
            [VNode (Node ''Name'' [(''id'', VStr a), (''ctx'', VNode (Node ''Store'' [] ca))] la),
             VNode (Node ''Name'' [(''id'', VStr b), (''ctx'', VNode (Node ''Store'' [] cb))] lb),
             VNode (Node ''Name'' [(''id'', VStr c), (''ctx'', VNode (Node ''Store'' [] cc))] lc)]),
          (''value'', VNode e)] l) st
    = Inr (VNode (Node ''Assign''
         [(''targets'', VList
            [VNode (Node ''Name'' [(''id'', VStr a), (''ctx'', VNode (Node ''Store'' [] ca))] la),
             VNode (Node ''Name'' [(''id'', VStr b), (''ctx'', VNode (Node ''Store'' [] cb))] lb),
             VNode (Node ''Name'' [(''id'', VStr c), (''ctx'', VNode (Node ''Store'' [] cc))] lc)]),
          (''value'', VNode e')] l), s'))
   \<and> (cls node = ''Assign'' \<longrightarrow>
      node_contents_visit cfg node st = Inr (node', st') \<longrightarrow>
      getattr node' ''targets'' = Inr (VList ts) \<longrightarrow>
      list_ex (\<lambda>t. isinstance t ''Tuple'') ts \<longrightarrow>
      visit cfg node st = Inr (r, st'') \<longrightarrow>
      st'' = st' \<and> (\<exists>ns n. lineno node = Some n \<and> r = VList (map VNode ns)
        \<and> map cls ns = map (\<lambda>t. ''Assign'') (rev ts)
        \<and> map (\<lambda>m. getattr m ''targets'') ns
            = map (\<lambda>t. Inr (VList (fix_items n [t]))) (rev ts)))"
proof (intro conjI impI)
  show "st'' = st'" if "cls node = ''Assign''"
      "node_contents_visit cfg node st = Inr (node', st')"
      "getattr node' ''targets'' = Inr (VList ts)"
      "list_ex (\<lambda>t. isinstance t ''Tuple'') ts"
      "visit cfg node st = Inr (r, st'')"
    using assign_tuple_split [OF that] by simp
  show "\<exists>ns n. lineno node = Some n \<and> r = VList (map VNode ns)
        \<and> map cls ns = map (\<lambda>t. ''Assign'') (rev ts)
        \<and> map (\<lambda>m. getattr m ''targets'') ns
            = map (\<lambda>t. Inr (VList (fix_items n [t]))) (rev ts)"
    if "cls node = ''Assign''"
      "node_contents_visit cfg node st = Inr (node', st')"
      "getattr node' ''targets'' = Inr (VList ts)"
      "list_ex (\<lambda>t. isinstance t ''Tuple'') ts"
      "visit cfg node st = Inr (r, st'')"
    using assign_tuple_split [OF that] by simp
qed (rule assign_three_names)

text \<open>
  The claim as stated fails for \<^verbatim>\<open>a = b = c = 1\<close>: the visit returns the one
  assignment node with its three targets, not three assignments.
\<close>

theorem assign_multi_target_counterexample:
  "visit python36
     (Node ''Assign''
        [(''targets'', VList [VNode (at_line 1 (mk_Name (VStr ''a'') ''Store'')),
                             VNode (at_line 1 (mk_Name (VStr ''b'') ''Store'')),
                             VNode (at_line 1 (mk_Name (VStr ''c'') ''Store''))]),
         (''value'', VNode (at_line 1 (mk_Num 1)))] (Some 1)) init_state
   = Inr (VNode (Node ''Assign''
        [(''targets'', VList [VNode (at_line 1 (mk_Name (VStr ''a'') ''Store'')),
                             VNode (at_line 1 (mk_Name (VStr ''b'') ''Store'')),
                             VNode (at_line 1 (mk_Name (VStr ''c'') ''Store''))]),
         (''value'', VNode (at_line 1 (mk_Num 1)))] (Some 1)), init_state)"
  by code_simp

theorem assign_multi_target_witness:
  "visit python36
     (Node ''Assign''
        [(''targets'', VList [VNode (at_line 2 (mk_Name (VStr ''a'') ''Store'')),
                             VNode (at_line 2 (mk_Name (VStr ''b'') ''Store'')),
                             VNode (at_line 2 (mk_Name (VStr ''c'') ''Store''))]),
         (''value'', VNode (at_line 2 (mk_Num 7)))] (Some 2)) init_state
   = Inr (VNode (Node ''Assign''
        [(''targets'', VList [VNode (at_line 2 (mk_Name (VStr ''a'') ''Store'')),
                             VNode (at_line 2 (mk_Name (VStr ''b'') ''Store'')),
                             VNode (at_line 2 (mk_Name (VStr ''c'') ''Store''))]),
         (''value'', VNode (at_line 2 (mk_Num 7)))] (Some 2)), init_state)
   \<and> (\<exists>ns. visit python36
     (Node ''Assign''
        [(''targets'', VList
           [VNode (at_line 1 (mk_Tuple [VNode (at_line 1 (mk_Name (VStr ''a'') ''Store'')),
                                        VNode (at_line 1 (mk_Name (VStr ''b'') ''Store''))] ''Store'')),
            VNode (at_line 1 (mk_Name (VStr ''c'') ''Store''))]),
         (''value'', VNode (at_line 1 (mk_Name (VStr ''x'') ''Load'')))] (Some 1)) init_state
      = Inr (VList (map VNode ns), init_state\<lparr>used_names := [(VStr ''x'', True)]\<rparr>)
     \<and> map cls ns = [''Assign'', ''Assign'']
     \<and> map (\<lambda>m. getattr m ''targets'') ns
         = [Inr (VList [VNode (at_line 1 (mk_Name (VStr ''c'') ''Store''))]),
            Inr (VList [VNode (at_line 1 (mk_Tuple
               [VNode (at_line 1 (mk_Name (VStr ''a'') ''Store'')),
                VNode (at_line 1 (mk_Name (VStr ''b'') ''Store''))] ''Store''))])])"
proof -
  let ?n = "\<lambda>x. Node ''Name'' [(''id'', VStr x), (''ctx'', VNode (Node ''Store'' [] None))] (Some 2)"
  have h1: "check_name (?n ''a'') (VStr ''a'') init_state = Inr ((), init_state)
    \<and> check_name (?n ''b'') (VStr ''b'') init_state = Inr ((), init_state)
    \<and> check_name (?n ''c'') (VStr ''c'') init_state = Inr ((), init_state)
    \<and> visit python36 (Node ''Num'' [(''n'', VInt 7)] (Some 2)) init_state
        = Inr (VNode (Node ''Num'' [(''n'', VInt 7)] (Some 2)), init_state)"
    by code_simp
  from h1 assign_multi_target [where cfg = python36 and st = init_state and sa = init_state
      and sb = init_state and sc = init_state and s' = init_state
      and a = "''a''" and b = "''b''" and c = "''c''" and ca = None and cb = None and cc = None
      and la = "Some 2" and lb = "Some 2" and lc = "Some 2" and l = "Some 2"
      and e = "Node ''Num'' [(''n'', VInt 7)] (Some 2)"
      and e' = "Node ''Num'' [(''n'', VInt 7)] (Some 2)", THEN conjunct1]
  have 1: "visit python36
     (Node ''Assign''
        [(''targets'', VList [VNode (at_line 2 (mk_Name (VStr ''a'') ''Store'')),
                             VNode (at_line 2 (mk_Name (VStr ''b'') ''Store'')),
                             VNode (at_line 2 (mk_Name (VStr ''c'') ''Store''))]),
         (''value'', VNode (at_line 2 (mk_Num 7)))] (Some 2)) init_state
   = Inr (VNode (Node ''Assign''
        [(''targets'', VList [VNode (at_line 2 (mk_Name (VStr ''a'') ''Store'')),
                             VNode (at_line 2 (mk_Name (VStr ''b'') ''Store'')),
                             VNode (at_line 2 (mk_Name (VStr ''c'') ''Store''))]),
         (''value'', VNode (at_line 2 (mk_Num 7)))] (Some 2)), init_state)"
    by (simp add: at_line_def mk_Name_def mk_Num_def mk_ctx_def)
  let ?ts = "[VNode (at_line 1 (mk_Tuple [VNode (at_line 1 (mk_Name (VStr ''a'') ''Store'')),
                                        VNode (at_line 1 (mk_Name (VStr ''b'') ''Store''))] ''Store'')),
            VNode (at_line 1 (mk_Name (VStr ''c'') ''Store''))]"
  let ?node = "Node ''Assign''
        [(''targets'', VList ?ts),
         (''value'', VNode (at_line 1 (mk_Name (VStr ''x'') ''Load'')))] (Some 1)"
  let ?st = "init_state\<lparr>used_names := [(VStr ''x'', True)]\<rparr>"
  have k: "cls ?node = ''Assign''" by simp
  have w: "node_contents_visit python36 ?node init_state = Inr (?node, ?st)" by code_simp
  have t: "getattr ?node ''targets'' = Inr (VList ?ts)" by code_simp
  have x: "list_ex (\<lambda>t. isinstance t ''Tuple'') ?ts" by code_simp
  have nl: "\<not> isl (visit python36 ?node init_state)" by code_simp
  obtain r st'' where v: "visit python36 ?node init_state = Inr (r, st'')"
    using nl by (cases "visit python36 ?node init_state") auto
  note res = assign_multi_target [where cfg = python36 and st = init_state and node = ?node
      and node' = ?node and st' = ?st and ts = ?ts and r = r and st'' = st'', THEN conjunct2,
      rule_format, OF k w t x v]
  from res have s: "st'' = ?st" by (rule conjunct1)
  from res [THEN conjunct2] obtain ns n where n: "lineno ?node = Some n"
    and r: "r = VList (map VNode ns)"
    and c: "map cls ns = map (\<lambda>t. ''Assign'') (rev ?ts)"
    and g: "map (\<lambda>m. getattr m ''targets'') ns
        = map (\<lambda>t. Inr (VList (fix_items n [t]))) (rev ?ts)"
    by (elim exE conjE)
  from n have n1: "n = 1" by simp
  from v r s have 2: "visit python36 ?node init_state = Inr (VList (map VNode ns), ?st)"
    by simp
  from c have 3: "map cls ns = [''Assign'', ''Assign'']" by simp
  have fx: "map (\<lambda>t. Inr (VList (fix_items 1 [t]))) (rev ?ts)
      = [Inr (VList [VNode (at_line 1 (mk_Name (VStr ''c'') ''Store''))]) :: exn + val,
            Inr (VList [VNode (at_line 1 (mk_Tuple
               [VNode (at_line 1 (mk_Name (VStr ''a'') ''Store'')),
                VNode (at_line 1 (mk_Name (VStr ''b'') ''Store''))] ''Store''))])]"
    by code_simp
  from g have 4: "map (\<lambda>m. getattr m ''targets'') ns
         = [Inr (VList [VNode (at_line 1 (mk_Name (VStr ''c'') ''Store''))]),
            Inr (VList [VNode (at_line 1 (mk_Tuple
               [VNode (at_line 1 (mk_Name (VStr ''a'') ''Store'')),
                VNode (at_line 1 (mk_Name (VStr ''b'') ''Store''))] ''Store''))])]"
    unfolding n1 fx .
  from 2 3 4 have "\<exists>ns. visit python36 ?node init_state = Inr (VList (map VNode ns), ?st)
     \<and> map cls ns = [''Assign'', ''Assign'']
     \<and> map (\<lambda>m. getattr m ''targets'') ns
         = [Inr (VList [VNode (at_line 1 (mk_Name (VStr ''c'') ''Store''))]),
            Inr (VList [VNode (at_line 1 (mk_Tuple
               [VNode (at_line 1 (mk_Name (VStr ''a'') ''Store'')),
                VNode (at_line 1 (mk_Name (VStr ''b'') ''Store''))] ''Store''))])]"
    by (intro exI [of _ ns] conjI)
  with 1 show ?thesis by (rule conjI)
qed

end
